theory Spec2Isabelle
  imports Complex_Main
begin

section \<open>JavaScript strings and values\<close>

text \<open>
  Strings are lists of 8-bit characters (the Latin-1 range of JavaScript's code units).
  \<open>js_ws\<close> is the white space of \<open>String.prototype.trim\<close> and of the regular
  expression class \<open>\s\<close> in that range.
\<close>

definition js_ws :: "char \<Rightarrow> bool" where
  "js_ws c = (c \<in> set [CHR 0x09, CHR 0x0A, CHR 0x0B, CHR 0x0C, CHR 0x0D, CHR 0x20, CHR 0xA0])"

definition line_terminator :: "char \<Rightarrow> bool" where
  \<comment> \<open>the characters the regular expression \<open>.\<close> does not match\<close>
  "line_terminator c = (c = CHR 0x0A \<or> c = CHR 0x0D)"

definition trim :: "string \<Rightarrow> string" where
  "trim s = rev (dropWhile js_ws (rev (dropWhile js_ws s)))"

fun startsWith :: "string \<Rightarrow> string \<Rightarrow> bool" where
  "startsWith s [] = True"
| "startsWith [] (p # ps) = False"
| "startsWith (c # cs) (p # ps) = (c = p \<and> startsWith cs ps)"

definition endsWith :: "string \<Rightarrow> string \<Rightarrow> bool" where
  "endsWith s p = startsWith (rev s) (rev p)"

fun js_includes :: "string \<Rightarrow> string \<Rightarrow> bool" where
  "js_includes [] p = (p = [])"
| "js_includes (c # cs) p = (startsWith (c # cs) p \<or> js_includes cs p)"

fun split_nl :: "string \<Rightarrow> string list" where
  \<comment> \<open>\<open>s.split("\n")\<close>: never empty, \<open>"".split("\n")\<close> is \<open>[""]\<close>\<close>
  "split_nl [] = [[]]"
| "split_nl (c # cs) =
     (if c = CHR 0x0A then [] # split_nl cs
      else (case split_nl cs of [] \<Rightarrow> [[c]] | l # ls \<Rightarrow> (c # l) # ls))"

definition truthy :: "string option \<Rightarrow> bool" where
  \<comment> \<open>a value that is \<open>null\<close> (\<open>None\<close>) or a string: falsy when null or empty\<close>
  "truthy v = (case v of None \<Rightarrow> False | Some s \<Rightarrow> s \<noteq> [])"

definition js_str :: "string option \<Rightarrow> string" where
  \<comment> \<open>interpolation \<open>${v}\<close> of a value that is null or a string\<close>
  "js_str v = (case v of None \<Rightarrow> ''null'' | Some s \<Rightarrow> s)"

definition Math_round :: "real \<Rightarrow> int" where
  \<comment> \<open>\<open>Math.round\<close> on finite numbers: to the nearest integer, halves upwards\<close>
  "Math_round v = \<lfloor>v + 1 / 2\<rfloor>"

section \<open>External tools\<close>

text \<open>
  Every external process the backend starts is a \<open>command\<close>. \<open>Spawn\<close> is
  \<open>child_process.spawn(command, args)\<close> of \<open>runCommand\<close>; \<open>ExecSync\<close> is an
  \<open>execSync\<close> of the command line given; the other constructors are the \<open>execSync\<close>
  calls whose command line interpolates rounded numbers, named after their template:
  \<^item> \<open>DevicectlTouch d X Y\<close>: \<open>xcrun devicectl device d send-input touch --x X --y Y\<close>
  \<^item> \<open>SimctlUiTap d X Y\<close>: \<open>xcrun simctl ui d tap X Y\<close>
  \<^item> \<open>OsascriptTapScaled X Y\<close>: the AppleScript that scales \<open>X\<close>, \<open>Y\<close> from a 315 x 560
    web surface into the Simulator window and clicks there
  \<^item> \<open>OsascriptTapDebug X Y\<close>: the AppleScript that clicks at the raw, at the window-relative
    and at the window-centre coordinates
  \<^item> \<open>DevicectlSwipe d X0 Y0 X1 Y1\<close>: \<open>xcrun devicectl device d send-input swipe --start-x X0
    --start-y Y0 --end-x X1 --end-y Y1\<close>
  \<^item> \<open>OsascriptSwipeClicks X0 Y0 X1 Y1\<close>: the AppleScript clicking the start and the end point
  \<^item> \<open>OsascriptSwipeDrag X0 Y0 X1 Y1\<close>: the AppleScript with mousedown, mousemove, mouseup.

  The machine the backend runs on is a state of any type \<open>'w\<close>; \<open>'w exec\<close> says what a
  command does there: \<open>Inr\<close> its standard output when it exits with code 0, \<open>Inl\<close> the
  message of the error raised otherwise, and the machine's next state.
\<close>

datatype command =
    Spawn string "string list"
  | ExecSync string
  | DevicectlTouch string int int
  | SimctlUiTap string int int
  | OsascriptTapScaled int int
  | OsascriptTapDebug int int
  | DevicectlSwipe string int int int int
  | OsascriptSwipeClicks int int int int
  | OsascriptSwipeDrag int int int int

type_synonym 'w exec = "'w \<Rightarrow> command \<Rightarrow> (string + string) \<times> 'w"

section \<open>WDAClient (backend/wda-client.js)\<close>

record device =
  dev_id :: string
  dev_name :: string
  dev_type :: string
  dev_status :: string
  dev_os :: string

text \<open>
  The fields of the \<open>WDAClient\<close> object, together with the machine it drives (\<open>host\<close>) and
  the commands it has started there so far, oldest first (\<open>issued\<close>).
\<close>

record 'w sys =
  isConnected :: bool
  currentDevice :: "string option"
  devices :: "device list"
  host :: 'w
  issued :: "command list"

text \<open>
  Error messages. A message that interpolates the coordinates keeps them as numbers:
  \<open>FailedToTap x y m\<close> is \<open>Failed to tap at (x, y): m\<close> and \<open>FailedToSwipe x0 y0 x1 y1 m\<close> is
  \<open>Failed to swipe from (x0, y0) to (x1, y1): m\<close>; \<open>FailedToSendKeys text m\<close> is
  \<open>Failed to send keys "text": m\<close>.
\<close>

datatype msg =
    Msg string
  | FailedToTap real real msg
  | FailedToSwipe real real real real msg
  | FailedToSendKeys string msg

definition run :: "'w exec \<Rightarrow> command \<Rightarrow> 'w sys \<Rightarrow> (string + string) \<times> 'w sys" where
  "run ex c s = (case ex (host s) c of (r, w) \<Rightarrow> (r, s\<lparr>host := w, issued := issued s @ [c]\<rparr>))"

definition arg :: "string list \<Rightarrow> nat \<Rightarrow> string" where
  \<comment> \<open>\<open>args[i]\<close>; every call of \<open>runCommand\<close> in the backend gives the arguments its
     command reads, so the value past the end is never used\<close>
  "arg args i = (if i < length args then args ! i else ''undefined'')"

definition command_for :: "string list \<Rightarrow> command" where
  "command_for args =
     (if arg args 0 = ''list-targets'' then Spawn ''xcrun'' [''simctl'', ''list'', ''devices'', ''available'']
      else if arg args 0 = ''list-devices'' then Spawn ''xcrun'' [''devicectl'', ''list'', ''devices'']
      else if arg args 0 = ''version'' then Spawn ''xcodebuild'' [''-version'']
      else if arg args 0 = ''boot'' then Spawn ''xcrun'' [''simctl'', ''boot'', arg args 1]
      else if arg args 0 = ''getenv'' then Spawn ''xcrun'' [''simctl'', ''getenv'', arg args 1, arg args 2]
      else if arg args 0 = ''screenshot'' then Spawn ''xcrun'' [''simctl'', ''io'', arg args 1, ''screenshot'', arg args 2]
      else Spawn ''xcrun'' [''simctl'', ''list''])"

definition runCommand :: "'w exec \<Rightarrow> string list \<Rightarrow> 'w sys \<Rightarrow> (string + string) \<times> 'w sys" where
  "runCommand ex args s =
     (case run ex (command_for args) s of
        (Inr out, s') \<Rightarrow> (Inr (trim out), s')
      | (Inl m, s') \<Rightarrow> (Inl m, s'))"

subsection \<open>listDevices\<close>

function strip_dashes :: "string \<Rightarrow> string" where
  \<comment> \<open>\<open>line.replace(/--\s*|\s*--/g, "")\<close>\<close>
  "strip_dashes [] = []"
| "strip_dashes (c # cs) =
     (if startsWith (c # cs) ''--'' then strip_dashes (dropWhile js_ws (drop 1 cs))
      else if startsWith (dropWhile js_ws (c # cs)) ''--''
        then strip_dashes (drop 2 (dropWhile js_ws (c # cs)))
      else c # strip_dashes cs)"
  by pat_completeness auto
termination
proof (relation "measure length")
  fix c :: char and cs :: string
  have "length (dropWhile js_ws (drop 1 cs)) \<le> length (drop 1 cs)"
    by (rule length_dropWhile_le)
  then show "(dropWhile js_ws (drop 1 cs), c # cs) \<in> measure length"
    by simp
next
  fix c :: char and cs :: string
  assume "startsWith (dropWhile js_ws (c # cs)) ''--''"
  then have ne: "dropWhile js_ws (c # cs) \<noteq> []"
    by (cases "dropWhile js_ws (c # cs)") (simp_all del: dropWhile.simps)
  have "length (dropWhile js_ws (c # cs)) \<le> length (c # cs)"
    by (rule length_dropWhile_le)
  with ne show "(drop 2 (dropWhile js_ws (c # cs)), c # cs) \<in> measure length"
    by (cases "dropWhile js_ws (c # cs)") (simp_all del: dropWhile.simps)
qed auto

definition paren_group :: "string \<Rightarrow> (string \<times> string) option" where
  \<comment> \<open>\<open>\(([^)]+)\)\<close> at the start of the string: the group and what follows it\<close>
  "paren_group s =
     (case s of
        [] \<Rightarrow> None
      | c # cs \<Rightarrow>
          if c \<noteq> CHR ''('' then None
          else let g = takeWhile (\<lambda>c. c \<noteq> CHR '')'') cs;
                   r = dropWhile (\<lambda>c. c \<noteq> CHR '')'') cs
               in if g = [] \<or> r = [] then None else Some (g, tl r))"

definition match_tail :: "string \<Rightarrow> (string \<times> string) option" where
  \<comment> \<open>\<open>\s+\(([^)]+)\)\s+\(([^)]+)\)$\<close> against the whole string: the two groups\<close>
  "match_tail s =
     (if takeWhile js_ws s = [] then None
      else case paren_group (dropWhile js_ws s) of
        None \<Rightarrow> None
      | Some (udid, r1) \<Rightarrow>
          if takeWhile js_ws r1 = [] then None
          else (case paren_group (dropWhile js_ws r1) of
                  None \<Rightarrow> None
                | Some (status, r2) \<Rightarrow> if r2 = [] then Some (udid, status) else None))"

fun match_from :: "string \<Rightarrow> string \<Rightarrow> (string \<times> string \<times> string) option" where
  \<comment> \<open>the lazy group \<open>(.+?)\<close> has matched \<open>name\<close>; extend it until the rest matches\<close>
  "match_from name [] = None"
| "match_from name (c # cs) =
     (case match_tail (c # cs) of
        Some (udid, status) \<Rightarrow> Some (name, udid, status)
      | None \<Rightarrow> if line_terminator c then None else match_from (name @ [c]) cs)"

definition device_match :: "string \<Rightarrow> (string \<times> string \<times> string) option" where
  \<comment> \<open>\<open>line.match(/^(.+?)\s+\(([^)]+)\)\s+\(([^)]+)\)$/)\<close>\<close>
  "device_match line =
     (case line of
        [] \<Rightarrow> None
      | c # cs \<Rightarrow> if line_terminator c then None else match_from [c] cs)"

definition parse_line :: "string \<Rightarrow> device list \<times> string \<Rightarrow> device list \<times> string" where
  \<comment> \<open>the body of \<open>lines.forEach\<close>, on \<open>this.devices\<close> and \<open>currentOS\<close>\<close>
  "parse_line raw acc =
     (let line = trim raw; devs = fst acc; currentOS = snd acc in
      if startsWith line ''--'' \<and> js_includes line ''iOS'' \<and> endsWith line ''--''
        then (devs, trim (strip_dashes line))
      else if js_includes line ''('' \<and> js_includes line '')'' \<and> \<not> startsWith line ''==''
        then (case device_match line of
                Some (name, udid, status) \<Rightarrow>
                  (devs @ [\<lparr>dev_id = trim udid, dev_name = trim name, dev_type = ''Simulator'',
                            dev_status = trim status, dev_os = currentOS\<rparr>], currentOS)
              | None \<Rightarrow> (devs, currentOS))
      else (devs, currentOS))"

definition parse_devices :: "string \<Rightarrow> device list" where
  "parse_devices result = fst (foldl (\<lambda>acc raw. parse_line raw acc) ([], []) (split_nl (trim result)))"

definition listDevices :: "'w exec \<Rightarrow> 'w sys \<Rightarrow> device list \<times> 'w sys" where
  "listDevices ex s =
     (case runCommand ex [''list-targets''] s of
        (Inr result, s') \<Rightarrow> (parse_devices result, s'\<lparr>devices := parse_devices result\<rparr>)
      | (Inl m, s') \<Rightarrow> ([], s'))"

subsection \<open>connectToDevice\<close>

definition connect_failed :: "'w sys \<Rightarrow> 'w sys" where
  \<comment> \<open>the \<open>catch\<close> block of \<open>connectToDevice\<close>, before it rethrows\<close>
  "connect_failed s = s\<lparr>isConnected := False, currentDevice := None\<rparr>"

definition test_connection :: "'w exec \<Rightarrow> string \<Rightarrow> 'w sys \<Rightarrow> (msg + string) \<times> 'w sys" where
  \<comment> \<open>from "Test connection to the device by checking its status" to the end of the \<open>try\<close>\<close>
  "test_connection ex deviceId s =
     (case runCommand ex [''list-targets''] s of
        (Inl m, s') \<Rightarrow> (Inl (Msg m), connect_failed s')
      | (Inr result, s') \<Rightarrow>
          (case find (\<lambda>line. js_includes line deviceId) (split_nl result) of
             Some deviceLine \<Rightarrow>
               if deviceLine \<noteq> [] \<and> js_includes deviceLine ''Booted''
                 then (Inr deviceId, s'\<lparr>currentDevice := Some deviceId, isConnected := True\<rparr>)
               else (Inl (Msg (''Device '' @ deviceId @ '' is not booted'')), connect_failed s')
           | None \<Rightarrow> (Inl (Msg (''Device '' @ deviceId @ '' is not booted'')), connect_failed s')))"

definition connectToDevice :: "'w exec \<Rightarrow> string option \<Rightarrow> 'w sys \<Rightarrow> (msg + string) \<times> 'w sys" where
  "connectToDevice ex deviceId s =
     (if \<not> truthy deviceId then
        (case listDevices ex s of
           (devs, s1) \<Rightarrow>
             (case find (\<lambda>d. dev_type d = ''Simulator'' \<and> dev_status d = ''Booted'') devs of
                Some simulator \<Rightarrow> test_connection ex (dev_id simulator) s1
              | None \<Rightarrow>
                  (case find (\<lambda>d. dev_type d = ''Simulator'') devs of
                     Some firstSim \<Rightarrow>
                       (case runCommand ex [''boot'', dev_id firstSim] s1 of
                          (Inl m, s2) \<Rightarrow> (Inl (Msg m), connect_failed s2)
                        | (Inr out, s2) \<Rightarrow> test_connection ex (dev_id firstSim) s2)
                   | None \<Rightarrow>
                       (Inl (Msg ''No iOS simulator found. Please start a simulator first.''),
                        connect_failed s1))))
      else test_connection ex (js_str deviceId) s)"

definition disconnect :: "'w sys \<Rightarrow> 'w sys" where
  "disconnect s = s\<lparr>isConnected := False, currentDevice := None\<rparr>"

definition ensure_connected :: "'w exec \<Rightarrow> 'w sys \<Rightarrow> (msg + unit) \<times> 'w sys" where
  \<comment> \<open>\<open>if (!this.isConnected || !this.currentDevice) { await this.connectToDevice(); }\<close>\<close>
  "ensure_connected ex s =
     (if \<not> isConnected s \<or> \<not> truthy (currentDevice s) then
        (case connectToDevice ex None s of
           (Inl e, s') \<Rightarrow> (Inl e, s')
         | (Inr d, s') \<Rightarrow> (Inr (), s'))
      else (Inr (), s))"

subsection \<open>tap\<close>

text \<open>
  What a successful call returns: \<open>{success: true, x, y, device}\<close> of \<open>tap\<close>,
  \<open>{success: true, startX, startY, endX, endY, duration, device}\<close> of \<open>swipe\<close> and
  \<open>{success: true, text, device}\<close> of \<open>sendKeys\<close>.
\<close>

datatype result =
    TapResult real real "string option"
  | SwipeResult real real real real real "string option"
  | KeysResult string "string option"

type_synonym 'w strategy = "'w sys \<Rightarrow> (string + unit) \<times> 'w sys"

definition exec_ok :: "'w exec \<Rightarrow> command \<Rightarrow> 'w strategy" where
  \<comment> \<open>an \<open>execSync\<close> whose output is not read\<close>
  "exec_ok ex c s = (case run ex c s of (Inl m, s') \<Rightarrow> (Inl m, s') | (Inr out, s') \<Rightarrow> (Inr (), s'))"

definition tap_wda :: "'w exec \<Rightarrow> real \<Rightarrow> real \<Rightarrow> 'w strategy" where
  \<comment> \<open>Try 1: the \<open>devicectl\<close> device list must name the current device\<close>
  "tap_wda ex x y s =
     (case run ex (ExecSync ''xcrun devicectl list devices'') s of
        (Inl m, s1) \<Rightarrow> (Inl m, s1)
      | (Inr wdaCheck, s1) \<Rightarrow>
          if js_includes wdaCheck (js_str (currentDevice s1))
            then exec_ok ex (DevicectlTouch (js_str (currentDevice s1)) (Math_round x) (Math_round y)) s1
          else (Inl ''WDA not available for this device'', s1))"

definition tap_simctl_ui :: "'w exec \<Rightarrow> real \<Rightarrow> real \<Rightarrow> 'w strategy" where
  "tap_simctl_ui ex x y s =
     exec_ok ex (SimctlUiTap (js_str (currentDevice s)) (Math_round x) (Math_round y)) s"

definition tap_applescript_scaled :: "'w exec \<Rightarrow> real \<Rightarrow> real \<Rightarrow> 'w strategy" where
  "tap_applescript_scaled ex x y s = exec_ok ex (OsascriptTapScaled (Math_round x) (Math_round y)) s"

definition tap_applescript_debug :: "'w exec \<Rightarrow> real \<Rightarrow> real \<Rightarrow> 'w strategy" where
  "tap_applescript_debug ex x y s = exec_ok ex (OsascriptTapDebug (Math_round x) (Math_round y)) s"

definition attempt :: "bool \<times> string option \<times> 'w sys \<Rightarrow> 'w strategy \<Rightarrow> bool \<times> string option \<times> 'w sys" where
  \<comment> \<open>\<open>if (!success) { try { ...; success = true; } catch (error) { lastError = error; } }\<close>
     on \<open>success\<close>, the message of \<open>lastError\<close> and the state\<close>
  "attempt p st =
     (case p of (success, lastError, s) \<Rightarrow>
        if \<not> success then
          (case st s of
             (Inr u, s') \<Rightarrow> (True, lastError, s')
           | (Inl m, s') \<Rightarrow> (False, Some m, s'))
        else (success, lastError, s))"

definition tap_strategies :: "'w exec \<Rightarrow> real \<Rightarrow> real \<Rightarrow> 'w strategy list" where
  "tap_strategies ex x y =
     [tap_wda ex x y, tap_simctl_ui ex x y, tap_applescript_scaled ex x y, tap_applescript_debug ex x y]"

definition message_or :: "string option \<Rightarrow> string \<Rightarrow> string" where
  \<comment> \<open>\<open>lastError?.message || dflt\<close>\<close>
  "message_or lastError dflt = (case lastError of None \<Rightarrow> dflt | Some m \<Rightarrow> if m = [] then dflt else m)"

definition tap :: "'w exec \<Rightarrow> real \<Rightarrow> real \<Rightarrow> 'w sys \<Rightarrow> (msg + result) \<times> 'w sys" where
  "tap ex x y s =
     (case ensure_connected ex s of
        (Inl e, s0) \<Rightarrow> (Inl (FailedToTap x y e), s0)
      | (Inr u, s0) \<Rightarrow>
          (case foldl attempt (False, None, s0) (tap_strategies ex x y) of
             (success, lastError, s1) \<Rightarrow>
               if success then (Inr (TapResult x y (currentDevice s1)), s1)
               else (Inl (FailedToTap x y (FailedToTap x y (FailedToTap x y
                       (Msg (message_or lastError ''All methods failed''))))), s1)))"

subsection \<open>swipe\<close>

definition swipe_wda :: "'w exec \<Rightarrow> real \<Rightarrow> real \<Rightarrow> real \<Rightarrow> real \<Rightarrow> 'w strategy" where
  "swipe_wda ex startX startY endX endY s =
     (case run ex (ExecSync ''xcrun devicectl list devices'') s of
        (Inl m, s1) \<Rightarrow> (Inl m, s1)
      | (Inr wdaCheck, s1) \<Rightarrow>
          if js_includes wdaCheck (js_str (currentDevice s1))
            then exec_ok ex (DevicectlSwipe (js_str (currentDevice s1)) (Math_round startX)
                   (Math_round startY) (Math_round endX) (Math_round endY)) s1
          else (Inl ''WDA not available for this device'', s1))"

definition swipe_applescript :: "'w exec \<Rightarrow> real \<Rightarrow> real \<Rightarrow> real \<Rightarrow> real \<Rightarrow> 'w strategy" where
  "swipe_applescript ex startX startY endX endY s =
     exec_ok ex (OsascriptSwipeClicks (Math_round startX) (Math_round startY)
       (Math_round endX) (Math_round endY)) s"

definition swipe_strategies :: "'w exec \<Rightarrow> real \<Rightarrow> real \<Rightarrow> real \<Rightarrow> real \<Rightarrow> 'w strategy list" where
  "swipe_strategies ex startX startY endX endY =
     [swipe_wda ex startX startY endX endY, swipe_applescript ex startX startY endX endY]"

definition swipe :: "'w exec \<Rightarrow> real \<Rightarrow> real \<Rightarrow> real \<Rightarrow> real \<Rightarrow> real \<Rightarrow> 'w sys \<Rightarrow> (msg + result) \<times> 'w sys" where
  \<comment> \<open>when both strategies fail, the \<open>Swipe failed\<close> error is caught and the drag script is the
     last resort\<close>
  "swipe ex startX startY endX endY duration s =
     (case ensure_connected ex s of
        (Inl e, s0) \<Rightarrow> (Inl (FailedToSwipe startX startY endX endY e), s0)
      | (Inr u, s0) \<Rightarrow>
          (case foldl attempt (False, None, s0) (swipe_strategies ex startX startY endX endY) of
             (success, lastError, s1) \<Rightarrow>
               if success
                 then (Inr (SwipeResult startX startY endX endY duration (currentDevice s1)), s1)
               else
                 (case exec_ok ex (OsascriptSwipeDrag (Math_round startX) (Math_round startY)
                         (Math_round endX) (Math_round endY)) s1 of
                    (Inr v, s2) \<Rightarrow>
                      (Inr (SwipeResult startX startY endX endY duration (currentDevice s2)), s2)
                  | (Inl m, s2) \<Rightarrow>
                      (Inl (FailedToSwipe startX startY endX endY
                             (FailedToSwipe startX startY endX endY (Msg m))), s2))))"

subsection \<open>sendKeys\<close>




section \<open>FFmpegStream (backend/ffmpeg-stream.js)\<close>

text \<open>
  The fields of the \<open>FFmpegStream\<close> object. A timer is the number \<open>setInterval\<close> returned
  for it. With the fields go the part of the event loop the object acts on: \<open>armed\<close>, the
  interval timers it has set and not cleared, \<open>next_timer\<close>, the next timer \<open>setInterval\<close>
  returns, and \<open>emitted\<close>, the events the object has emitted, oldest first. A socket is its
  \<open>id\<close>.
\<close>

record ffmpeg_stream =
  ffmpegProcess :: "nat option"
  isStreaming :: bool
  currentSocket :: "string option"
  simulatorId :: "string option"
  screenshotInterval :: "nat option"
  armed :: "nat set"
  next_timer :: nat
  emitted :: "string list"

definition new_FFmpegStream :: ffmpeg_stream where
  \<comment> \<open>the constructor; \<open>screenshotInterval\<close> is not assigned there, so \<open>undefined\<close>\<close>
  "new_FFmpegStream =
     \<lparr>ffmpegProcess = None, isStreaming = False, currentSocket = None, simulatorId = None,
      screenshotInterval = None, armed = {}, next_timer = 0, emitted = []\<rparr>"

definition stopStream :: "ffmpeg_stream \<Rightarrow> ffmpeg_stream" where
  "stopStream s =
     (let s1 = (case screenshotInterval s of
                  Some t \<Rightarrow> s\<lparr>armed := armed s - {t}, screenshotInterval := None\<rparr>
                | None \<Rightarrow> s);
          s2 = (case ffmpegProcess s1 of
                  Some p \<Rightarrow> s1\<lparr>ffmpegProcess := None\<rparr>
                | None \<Rightarrow> s1)
      in s2\<lparr>isStreaming := False, currentSocket := None, simulatorId := None,
             emitted := emitted s2 @ [''stream-stopped'']\<rparr>)"

definition startScreenshotLoop :: "ffmpeg_stream \<Rightarrow> ffmpeg_stream" where
  "startScreenshotLoop s =
     (let s1 = (case screenshotInterval s of
                  Some t \<Rightarrow> s\<lparr>armed := armed s - {t}\<rparr>
                | None \<Rightarrow> s)
      in s1\<lparr>screenshotInterval := Some (next_timer s1),
             armed := insert (next_timer s1) (armed s1),
             next_timer := Suc (next_timer s1)\<rparr>)"

definition startStream :: "string \<Rightarrow> string option \<Rightarrow> ffmpeg_stream \<Rightarrow> ffmpeg_stream" where
  "startStream socket simId s =
     (let s1 = (if isStreaming s then stopStream s else s);
          s2 = s1\<lparr>currentSocket := Some socket, simulatorId := simId\<rparr>;
          s3 = startScreenshotLoop s2
      in s3\<lparr>isStreaming := True, emitted := emitted s3 @ [''stream-started'']\<rparr>)"









definition backends :: "ffmpeg_stream \<Rightarrow> nat" where
  \<comment> \<open>the capture loops and capture processes that are running\<close>
  "backends s = card (armed s) + (if ffmpegProcess s = None then 0 else 1)"

definition ffmpeg_wf :: "ffmpeg_stream \<Rightarrow> bool" where
  \<comment> \<open>the timers armed are the one the object remembers, and a capture process is held only
     while streaming\<close>
  "ffmpeg_wf s =
     (armed s = set_option (screenshotInterval s) \<and> (ffmpegProcess s = None \<or> isStreaming s))"

section \<open>WebRTCStream (backend/webrtc-stream.js)\<close>

text \<open>
  The fields of the \<open>WebRTCStream\<close> object: \<open>peers\<close> maps a socket id to its peer
  connection, a number. \<open>rtc_armed\<close>, \<open>rtc_next\<close> and \<open>rtc_emitted\<close> are as for
  \<open>FFmpegStream\<close>; \<open>live_peers\<close> are the peer connections created and not destroyed.
\<close>

record webrtc_stream =
  peers :: "string \<rightharpoonup> nat"
  rtc_isStreaming :: bool
  rtc_simulatorId :: "string option"
  screenshotMode :: bool
  rtc_screenshotInterval :: "nat option"
  rtc_armed :: "nat set"
  live_peers :: "nat set"
  rtc_next :: nat
  rtc_emitted :: "string list"

definition new_WebRTCStream :: webrtc_stream where
  "new_WebRTCStream =
     \<lparr>peers = Map.empty, rtc_isStreaming = False, rtc_simulatorId = None, screenshotMode = False,
      rtc_screenshotInterval = None, rtc_armed = {}, live_peers = {}, rtc_next = 0,
      rtc_emitted = []\<rparr>"

definition rtc_stopStream :: "webrtc_stream \<Rightarrow> webrtc_stream" where
  "rtc_stopStream s =
     (let s1 = (case rtc_screenshotInterval s of
                  Some t \<Rightarrow> s\<lparr>rtc_armed := rtc_armed s - {t}, rtc_screenshotInterval := None\<rparr>
                | None \<Rightarrow> s)
      in s1\<lparr>live_peers := live_peers s1 - ran (peers s1), peers := Map.empty,
             rtc_isStreaming := False, rtc_simulatorId := None,
             rtc_emitted := rtc_emitted s1 @ [''stream-stopped'']\<rparr>)"













definition enableWebRTCMode :: "webrtc_stream \<Rightarrow> webrtc_stream" where
  "enableWebRTCMode s = s\<lparr>screenshotMode := False\<rparr>"

definition enableScreenshotMode :: "webrtc_stream \<Rightarrow> webrtc_stream" where
  "enableScreenshotMode s = s\<lparr>screenshotMode := True\<rparr>"

definition rtc_backends :: "webrtc_stream \<Rightarrow> nat" where
  "rtc_backends s = card (rtc_armed s) + card (live_peers s)"

definition rtc_wf :: "webrtc_stream \<Rightarrow> bool" where
  \<comment> \<open>the timers armed and the peers alive are the ones the object remembers, and it
     remembers none unless streaming\<close>
  "rtc_wf s =
     (rtc_armed s = set_option (rtc_screenshotInterval s) \<and> live_peers s = ran (peers s) \<and>
      finite (dom (peers s)) \<and>
      (rtc_isStreaming s \<or> (rtc_screenshotInterval s = None \<and> peers s = Map.empty)))"

section \<open>The socket handlers (backend/server.js)\<close>

record tap_data =
  data_x :: "real option"
  data_y :: "real option"

record swipe_data =
  data_startX :: "real option"
  data_startY :: "real option"
  data_endX :: "real option"
  data_endY :: "real option"
  data_duration :: "real option"

definition falsy :: "real option \<Rightarrow> bool" where
  \<comment> \<open>\<open>!v\<close> for a field that is absent (\<open>None\<close>) or a finite number\<close>
  "falsy v = (case v of None \<Rightarrow> True | Some n \<Rightarrow> n = 0)"

text \<open>
  What a handler sends back on the socket: \<open>input-result\<close> with \<open>success: true\<close> and the
  result or with \<open>success: false\<close> and the error message, \<open>simulator-status\<close> and
  \<open>stream-status\<close> with their status.
\<close>

datatype reply =
    InputResultOk string result
  | InputResultErr string msg
  | SimulatorStatus string
  | StreamStatus string

record 'w server =
  wdaClient :: "'w sys"
  ffmpegStream :: ffmpeg_stream

definition new_WDAClient :: "'w \<Rightarrow> 'w sys" where
  "new_WDAClient w = \<lparr>isConnected = False, currentDevice = None, devices = [], host = w, issued = []\<rparr>"

definition on_tap :: "'w exec \<Rightarrow> tap_data \<Rightarrow> 'w server \<Rightarrow> reply \<times> 'w server" where
  \<comment> \<open>past the test both fields are numbers, so the last case is never taken\<close>
  "on_tap ex d srv =
     (if falsy (data_x d) \<or> falsy (data_y d)
        then (InputResultErr ''tap'' (Msg ''Invalid tap coordinates''), srv)
      else (case (data_x d, data_y d) of
              (Some x, Some y) \<Rightarrow>
                (case tap ex x y (wdaClient srv) of
                   (Inr r, c) \<Rightarrow> (InputResultOk ''tap'' r, srv\<lparr>wdaClient := c\<rparr>)
                 | (Inl e, c) \<Rightarrow> (InputResultErr ''tap'' e, srv\<lparr>wdaClient := c\<rparr>))
            | _ \<Rightarrow> (InputResultErr ''tap'' (Msg ''Invalid tap coordinates''), srv)))"

definition on_swipe :: "'w exec \<Rightarrow> swipe_data \<Rightarrow> 'w server \<Rightarrow> reply \<times> 'w server" where
  \<comment> \<open>\<open>data.duration || 1000\<close> is the duration; past the test the four coordinates are numbers\<close>
  "on_swipe ex d srv =
     (if falsy (data_startX d) \<or> falsy (data_startY d) \<or> falsy (data_endX d) \<or> falsy (data_endY d)
        then (InputResultErr ''swipe'' (Msg ''Invalid swipe coordinates''), srv)
      else (case (data_startX d, data_startY d, data_endX d, data_endY d) of
              (Some x0, Some y0, Some x1, Some y1) \<Rightarrow>
                (case swipe ex x0 y0 x1 y1
                        (case data_duration d of None \<Rightarrow> 1000 | Some t \<Rightarrow> if t = 0 then 1000 else t)
                        (wdaClient srv) of
                   (Inr r, c) \<Rightarrow> (InputResultOk ''swipe'' r, srv\<lparr>wdaClient := c\<rparr>)
                 | (Inl e, c) \<Rightarrow> (InputResultErr ''swipe'' e, srv\<lparr>wdaClient := c\<rparr>))
            | _ \<Rightarrow> (InputResultErr ''swipe'' (Msg ''Invalid swipe coordinates''), srv)))"

definition on_stop_simulator :: "'w server \<Rightarrow> reply \<times> 'w server" where
  "on_stop_simulator srv = (SimulatorStatus ''stopped'', srv\<lparr>wdaClient := disconnect (wdaClient srv)\<rparr>)"

definition on_start_stream :: "string \<Rightarrow> 'w server \<Rightarrow> reply \<times> 'w server" where
  "on_start_stream socket srv =
     (StreamStatus ''started'', srv\<lparr>ffmpegStream := startStream socket None (ffmpegStream srv)\<rparr>)"

definition on_stop_stream :: "'w server \<Rightarrow> reply \<times> 'w server" where
  "on_stop_stream srv = (StreamStatus ''stopped'', srv\<lparr>ffmpegStream := stopStream (ffmpegStream srv)\<rparr>)"

section \<open>Notions the properties are stated with\<close>

definition spec_map :: "real \<Rightarrow> real \<Rightarrow> real \<Rightarrow> real" where
  \<comment> \<open>the linear map of the specification, for one axis:
     \<open>device = client * deviceSurface / clientSurface\<close>\<close>
  "spec_map client clientSurface deviceSurface = client * deviceSurface / clientSurface"






definition probe :: command where
  "probe = ExecSync ''xcrun devicectl list devices''"

definition list_targets :: command where
  "list_targets = Spawn ''xcrun'' [''simctl'', ''list'', ''devices'', ''available'']"

definition boot_command :: "string \<Rightarrow> command" where
  "boot_command udid = Spawn ''xcrun'' [''simctl'', ''boot'', udid]"

definition is_simulator :: "device \<Rightarrow> bool" where
  \<comment> \<open>the predicate of the second \<open>devices.find\<close> of \<open>connectToDevice\<close>\<close>
  "is_simulator d = (dev_type d = ''Simulator'')"

definition booted_simulator :: "device \<Rightarrow> bool" where
  \<comment> \<open>the predicate of the first \<open>devices.find\<close> of \<open>connectToDevice\<close>\<close>
  "booted_simulator d = (dev_type d = ''Simulator'' \<and> dev_status d = ''Booted'')"

section \<open>Machines to run the backend on\<close>

text \<open>
  \<open>sim_host\<close> is a machine with one simulator, \<open>AAAA\<close>, whose state is whether that
  simulator is booted: the listing shows it, \<open>simctl boot AAAA\<close> boots it, \<open>devicectl\<close>
  knows the device, and every other command succeeds with no output.
\<close>

definition sim_listing :: "bool \<Rightarrow> string" where
  "sim_listing booted =
     ''== Devices =='' @ [CHR 0x0A] @ ''-- iOS 17.0 --'' @ [CHR 0x0A] @
     ''    iPhone 15 (AAAA) ('' @ (if booted then ''Booted'' else ''Shutdown'') @ '')''"

definition sim_host :: "bool exec" where
  "sim_host booted c =
     (if c = Spawn ''xcrun'' [''simctl'', ''list'', ''devices'', ''available'']
        then (Inr (sim_listing booted), booted)
      else if c = Spawn ''xcrun'' [''simctl'', ''boot'', ''AAAA''] then (Inr [], True)
      else if c = ExecSync ''xcrun devicectl list devices''
        then (Inr ''iPhone 15   AAAA   available'', booted)
      else (Inr [], booted))"

definition iphone15 :: "string \<Rightarrow> device" where
  "iphone15 status =
     \<lparr>dev_id = ''AAAA'', dev_name = ''iPhone 15'', dev_type = ''Simulator'', dev_status = status,
      dev_os = ''iOS 17.0''\<rparr>"

definition connected_client :: "'w \<Rightarrow> 'w sys" where
  \<comment> \<open>a client connected to \<open>AAAA\<close> that has issued nothing yet\<close>
  "connected_client w =
     \<lparr>isConnected = True, currentDevice = Some ''AAAA'', devices = [], host = w, issued = []\<rparr>"

text \<open>
  \<open>failing_host m\<close> is a machine on which no tap mechanism works: \<open>devicectl\<close> fails with
  the message \<open>m\<close>, and \<open>simctl ui\<close> and both AppleScripts fail with messages of their own.
\<close>

definition failing_host :: "string \<Rightarrow> unit exec" where
  "failing_host m w c =
     (case c of
        ExecSync l \<Rightarrow> (Inl m, w)
      | SimctlUiTap d X Y \<Rightarrow> (Inl ''Command failed: xcrun simctl ui'', w)
      | OsascriptTapScaled X Y \<Rightarrow> (Inl ''Command failed: osascript (scaled click)'', w)
      | OsascriptTapDebug X Y \<Rightarrow> (Inl ''Command failed: osascript (test clicks)'', w)
      | _ \<Rightarrow> (Inr [], w))"

definition offline_host :: "unit exec" where
  \<comment> \<open>a machine without the developer tools: every command fails to start\<close>
  "offline_host w c = (Inl ''spawn xcrun ENOENT'', w)"

definition idle_server :: "'w \<Rightarrow> 'w server" where
  \<comment> \<open>the server as it starts: \<open>new WDAClient()\<close>, \<open>new FFmpegStream()\<close>\<close>
  "idle_server w = \<lparr>wdaClient = new_WDAClient w, ffmpegStream = new_FFmpegStream\<rparr>"

definition running_stream :: ffmpeg_stream where
  \<comment> \<open>a polling stream started on a fresh \<open>FFmpegStream\<close>\<close>
  "running_stream = startStream ''socket-1'' None new_FFmpegStream"


fun is_spawn :: "command \<Rightarrow> bool" where
  \<comment> \<open>a command of \<open>runCommand\<close>: listing or booting, no input\<close>
  "is_spawn (Spawn c args) = True"
| "is_spawn c = False"

definition adds :: "(command \<Rightarrow> bool) \<Rightarrow> 'w sys \<Rightarrow> 'w sys \<Rightarrow> bool" where
  \<comment> \<open>from \<open>s\<close> to \<open>s'\<close> commands were issued, each of them satisfying \<open>P\<close>\<close>
  "adds P s s' = (\<exists>cs. issued s' = issued s @ cs \<and> list_all P cs)"


section \<open>Properties\<close>

subsection \<open>Commands issued\<close>

lemma adds_refl: "adds P s s"
  by (simp add: adds_def)

lemma adds_trans: "adds P s s' \<Longrightarrow> adds P s' s'' \<Longrightarrow> adds P s s''"
  by (auto simp: adds_def)

lemma adds_weaken: "adds P s s' \<Longrightarrow> (\<And>c. P c \<Longrightarrow> Q c) \<Longrightarrow> adds Q s s'"
  by (auto simp: adds_def list_all_iff)

lemma adds_fields:
  "adds P s s' \<Longrightarrow> adds P s (s'\<lparr>isConnected := b, currentDevice := d\<rparr>)"
  "adds P s s' \<Longrightarrow> adds P s (s'\<lparr>currentDevice := d, isConnected := b\<rparr>)"
  "adds P s s' \<Longrightarrow> adds P s (s'\<lparr>devices := ds\<rparr>)"
  by (simp_all add: adds_def)

lemma run_issued: "run ex c s = (r, s') \<Longrightarrow> issued s' = issued s @ [c]"
  by (auto simp: run_def split: prod.splits)

lemma run_adds: "run ex c s = (r, s') \<Longrightarrow> P c \<Longrightarrow> adds P s s'"
  by (auto simp: adds_def dest: run_issued)

lemma exec_ok_issued: "exec_ok ex c s = (r, s') \<Longrightarrow> issued s' = issued s @ [c]"
  by (auto simp: exec_ok_def split: prod.splits sum.splits dest: run_issued)

lemma exec_ok_adds: "exec_ok ex c s = (r, s') \<Longrightarrow> P c \<Longrightarrow> adds P s s'"
  by (auto simp: adds_def dest: exec_ok_issued)

lemma is_spawn_command_for: "is_spawn (command_for args)"
  by (simp add: command_for_def)

lemma runCommand_adds: "runCommand ex args s = (r, s') \<Longrightarrow> adds is_spawn s s'"
  by (auto simp: runCommand_def split: prod.splits sum.splits intro: run_adds is_spawn_command_for)

lemma listDevices_adds: "listDevices ex s = (ds, s') \<Longrightarrow> adds is_spawn s s'"
  by (auto simp: listDevices_def split: prod.splits sum.splits dest!: runCommand_adds intro: adds_fields)

lemma test_connection_adds: "test_connection ex d s = (r, s') \<Longrightarrow> adds is_spawn s s'"
  by (auto simp: test_connection_def connect_failed_def split: prod.splits sum.splits option.splits if_splits
      dest!: runCommand_adds intro: adds_fields)

lemma connectToDevice_adds: "connectToDevice ex d s = (r, s') \<Longrightarrow> adds is_spawn s s'"
  by (auto simp: connectToDevice_def connect_failed_def split: prod.splits sum.splits option.splits if_splits
      dest!: runCommand_adds listDevices_adds test_connection_adds intro: adds_fields adds_trans)

lemma ensure_connected_adds: "ensure_connected ex s = (r, s') \<Longrightarrow> adds is_spawn s s'"
  by (auto simp: ensure_connected_def split: prod.splits sum.splits if_splits
      dest!: connectToDevice_adds intro: adds_refl)

lemma attempt_adds:
  assumes "\<And>s r s'. st s = (r, s') \<Longrightarrow> adds P s s'"
  shows "attempt (b, e, s) st = (b', e', s') \<Longrightarrow> adds P s s'"
  by (auto simp: attempt_def split: if_splits prod.splits sum.splits dest: assms intro: adds_refl)

lemma chain_adds:
  assumes "\<And>st s r s'. st \<in> set sts \<Longrightarrow> st s = (r, s') \<Longrightarrow> adds P s s'"
  shows "foldl attempt (b, e, s) sts = (b', e', s') \<Longrightarrow> adds P s s'"
  using assms
proof (induction sts arbitrary: b e s)
  case Nil
  then show ?case by (simp add: adds_refl)
next
  case (Cons st sts)
  obtain b1 e1 s1 where step: "attempt (b, e, s) st = (b1, e1, s1)"
    by (cases "attempt (b, e, s) st") auto
  have one: "adds P s s'" if "st s = (r, s')" for s r s'
    using Cons.prems(2) [of st s r s'] that by simp
  have rest: "adds P s s'" if "st' \<in> set sts" "st' s = (r, s')" for st' s r s'
    using Cons.prems(2) [of st' s r s'] that by simp
  have "adds P s s1"
    using one step by (rule attempt_adds)
  moreover have "foldl attempt (b1, e1, s1) sts = (b', e', s')"
    using Cons.prems(1) step by simp
  then have "adds P s1 s'"
    using rest by (rule Cons.IH)
  ultimately show ?case by (rule adds_trans)
qed

subsection \<open>Zero coordinates\<close>

text \<open>
  C9. A tap whose \<open>x\<close> or \<open>y\<close> is 0, and a swipe with a 0 among \<open>startX\<close>, \<open>startY\<close>,
  \<open>endX\<close>, \<open>endY\<close>, is answered with \<open>Invalid tap coordinates\<close> or
  \<open>Invalid swipe coordinates\<close>, and the server is left as it was: no command is issued.
\<close>

theorem zero_coordinate_rejected:
  "(data_x d = Some 0 \<or> data_y d = Some 0 \<longrightarrow>
      on_tap ex d srv = (InputResultErr ''tap'' (Msg ''Invalid tap coordinates''), srv)) \<and>
   (data_startX e = Some 0 \<or> data_startY e = Some 0 \<or> data_endX e = Some 0 \<or> data_endY e = Some 0 \<longrightarrow>
      on_swipe ex e srv = (InputResultErr ''swipe'' (Msg ''Invalid swipe coordinates''), srv))"
  by (auto simp: on_tap_def on_swipe_def falsy_def)

theorem zero_coordinate_rejected_witness:
  "on_tap sim_host \<lparr>data_x = Some 0, data_y = Some 10\<rparr>
      \<lparr>wdaClient = connected_client True, ffmpegStream = new_FFmpegStream\<rparr>
     = (InputResultErr ''tap'' (Msg ''Invalid tap coordinates''),
        \<lparr>wdaClient = connected_client True, ffmpegStream = new_FFmpegStream\<rparr>) \<and>
   on_swipe sim_host \<lparr>data_startX = Some 5, data_startY = Some 7, data_endX = Some 0,
        data_endY = Some 9, data_duration = None\<rparr>
      \<lparr>wdaClient = connected_client True, ffmpegStream = new_FFmpegStream\<rparr>
     = (InputResultErr ''swipe'' (Msg ''Invalid swipe coordinates''),
        \<lparr>wdaClient = connected_client True, ffmpegStream = new_FFmpegStream\<rparr>)"
  using zero_coordinate_rejected [of "\<lparr>data_x = Some 0, data_y = Some 10\<rparr>" sim_host
      "\<lparr>wdaClient = connected_client True, ffmpegStream = new_FFmpegStream\<rparr>"
      "\<lparr>data_startX = Some 5, data_startY = Some 7, data_endX = Some 0,
        data_endY = Some 9, data_duration = None\<rparr>"]
  by simp

subsection \<open>Disconnecting and streaming\<close>

text \<open>
  C4, as the claim states it, fails: \<open>stop-simulator\<close> on a connected server with a running
  stream leaves the stream running, its timer armed.
\<close>

theorem stop_simulator_keeps_stream_counterexample:
  "isStreaming (ffmpegStream (snd (on_stop_simulator
      \<lparr>wdaClient = connected_client True, ffmpegStream = running_stream\<rparr>))) \<and>
   armed (ffmpegStream (snd (on_stop_simulator
      \<lparr>wdaClient = connected_client True, ffmpegStream = running_stream\<rparr>))) = {0} \<and>
   backends (ffmpegStream (snd (on_stop_simulator
      \<lparr>wdaClient = connected_client True, ffmpegStream = running_stream\<rparr>))) = 1"
  by (simp add: on_stop_simulator_def running_stream_def startStream_def new_FFmpegStream_def
      startScreenshotLoop_def backends_def Let_def)

text \<open>
  C4, amended. \<open>stop-simulator\<close>, from any state, clears the device reference and the
  connected flag of the client, issues no command, answers \<open>stopped\<close>, and leaves the
  stream object exactly as it was.
\<close>

theorem stop_simulator_disconnects_only:
  "fst (on_stop_simulator srv) = SimulatorStatus ''stopped'' \<and>
   \<not> isConnected (wdaClient (snd (on_stop_simulator srv))) \<and>
   currentDevice (wdaClient (snd (on_stop_simulator srv))) = None \<and>
   issued (wdaClient (snd (on_stop_simulator srv))) = issued (wdaClient srv) \<and>
   host (wdaClient (snd (on_stop_simulator srv))) = host (wdaClient srv) \<and>
   ffmpegStream (snd (on_stop_simulator srv)) = ffmpegStream srv"
  by (simp add: on_stop_simulator_def disconnect_def)

text \<open>
  C5, as the claim states it, fails: \<open>start-stream\<close> on a server that has never connected
  answers \<open>started\<close>, sets the running flag and arms the timer.
\<close>

theorem start_stream_unconnected_counterexample:
  "\<not> isConnected (wdaClient (idle_server True)) \<and>
   fst (on_start_stream ''socket-1'' (idle_server True)) = StreamStatus ''started'' \<and>
   isStreaming (ffmpegStream (snd (on_start_stream ''socket-1'' (idle_server True)))) \<and>
   armed (ffmpegStream (snd (on_start_stream ''socket-1'' (idle_server True)))) = {0}"
  by (simp add: on_start_stream_def idle_server_def new_WDAClient_def startStream_def
      new_FFmpegStream_def startScreenshotLoop_def Let_def)

text \<open>
  C5, amended. \<open>start-stream\<close> does not look at the session: in every state of the
  client, connected or not, it answers \<open>started\<close>, leaves the client as it was, sets the
  running flag, attaches the socket and arms a timer that the object remembers.
\<close>

theorem start_stream_ignores_session:
  "fst (on_start_stream socket srv) = StreamStatus ''started'' \<and>
   wdaClient (snd (on_start_stream socket srv)) = wdaClient srv \<and>
   isStreaming (ffmpegStream (snd (on_start_stream socket srv))) \<and>
   currentSocket (ffmpegStream (snd (on_start_stream socket srv))) = Some socket \<and>
   (\<exists>t. screenshotInterval (ffmpegStream (snd (on_start_stream socket srv))) = Some t \<and>
        t \<in> armed (ffmpegStream (snd (on_start_stream socket srv))))"
  by (simp add: on_start_stream_def startStream_def startScreenshotLoop_def Let_def
      split: option.splits)

subsection \<open>Taps outside the client surface\<close>

lemma chain_from_success: "foldl attempt (True, e, s) sts = (True, e, s)"
  by (induction sts) (simp_all add: attempt_def)

lemma connected_ensure:
  "isConnected s \<Longrightarrow> truthy (currentDevice s) \<Longrightarrow> ensure_connected ex s = (Inr (), s)"
  by (simp add: ensure_connected_def)

lemma tap_wda_probe_first: "tap_wda ex x y s = (r, s') \<Longrightarrow> \<exists>cs. issued s' = issued s @ probe # cs"
  by (auto simp: tap_wda_def probe_def split: prod.splits sum.splits if_splits
      dest!: run_issued exec_ok_issued)

lemma tap_chain_probe_first:
  assumes "foldl attempt (False, None, s) (tap_strategies ex x y) = (b, e, s')"
  shows "\<exists>cs. issued s' = issued s @ probe # cs"
proof -
  obtain r1 s1 where w: "tap_wda ex x y s = (r1, s1)"
    by (cases "tap_wda ex x y s") auto
  then obtain cs1 where c1: "issued s1 = issued s @ probe # cs1"
    by (auto dest: tap_wda_probe_first)
  obtain b1 e1 where a: "attempt (False, None, s) (tap_wda ex x y) = (b1, e1, s1)"
    using w by (cases r1) (auto simp: attempt_def)
  have "foldl attempt (b1, e1, s1)
      [tap_simctl_ui ex x y, tap_applescript_scaled ex x y, tap_applescript_debug ex x y] = (b, e, s')"
    using assms a by (simp add: tap_strategies_def)
  then have "adds (\<lambda>c. True) s1 s'"
    by (rule chain_adds [rotated])
      (auto simp: tap_simctl_ui_def tap_applescript_scaled_def tap_applescript_debug_def
        intro: exec_ok_adds)
  then obtain cs2 where "issued s' = issued s1 @ cs2"
    by (auto simp: adds_def)
  with c1 show ?thesis by simp
qed

text \<open>
  C1, as the claim states it, fails: the tap (-5, 10), left of every client surface, is not
  rejected. On a connected server the probe and the touch at (-5, 10) are issued and the
  reply reports success.
\<close>

theorem tap_out_of_bounds_counterexample:
  "on_tap sim_host \<lparr>data_x = Some (- 5), data_y = Some 10\<rparr>
      \<lparr>wdaClient = connected_client True, ffmpegStream = new_FFmpegStream\<rparr>
   = (InputResultOk ''tap'' (TapResult (- 5) 10 (Some ''AAAA'')),
      \<lparr>wdaClient = (connected_client True)\<lparr>issued := [probe, DevicectlTouch ''AAAA'' (- 5) 10]\<rparr>,
       ffmpegStream = new_FFmpegStream\<rparr>)"
  by (simp add: on_tap_def falsy_def tap_def ensure_connected_def connected_client_def truthy_def
      tap_strategies_def attempt_def tap_wda_def run_def sim_host_def js_str_def exec_ok_def
      Math_round_def probe_def)

text \<open>
  C1, amended. The tap handler knows no client surface: a tap whose \<open>x\<close> and \<open>y\<close> are both
  numbers other than 0, wherever the point lies, is handed to \<open>tap\<close>. On a connected
  client the strategy chain is then started, the probe being the first command issued; and
  when the probe names the device and the touch command succeeds, the touch is issued at
  \<open>(Math.round(x), Math.round(y))\<close>, unclamped, and the reply reports success.
\<close>

theorem tap_dispatched_without_bounds_check:
  assumes "vx \<noteq> 0" and "vy \<noteq> 0"
    and "isConnected (wdaClient srv)" and "currentDevice (wdaClient srv) = Some d" and "d \<noteq> []"
  shows "(\<exists>cs. issued (wdaClient (snd (on_tap ex \<lparr>data_x = Some vx, data_y = Some vy\<rparr> srv)))
            = issued (wdaClient srv) @ probe # cs) \<and>
         (ex (host (wdaClient srv)) probe = (Inr out, w1) \<and> js_includes out d \<and>
          ex w1 (DevicectlTouch d (Math_round vx) (Math_round vy)) = (Inr out', w2) \<longrightarrow>
          on_tap ex \<lparr>data_x = Some vx, data_y = Some vy\<rparr> srv
            = (InputResultOk ''tap'' (TapResult vx vy (Some d)),
               srv\<lparr>wdaClient := (wdaClient srv)\<lparr>host := w2,
                 issued := issued (wdaClient srv) @
                   [probe, DevicectlTouch d (Math_round vx) (Math_round vy)]\<rparr>\<rparr>))"
proof -
  let ?c = "wdaClient srv"
  have ec: "ensure_connected ex ?c = (Inr (), ?c)"
    using assms(3-5) by (intro connected_ensure) (simp_all add: truthy_def)
  obtain b e s1 where ch: "foldl attempt (False, None, ?c) (tap_strategies ex vx vy) = (b, e, s1)"
    by (cases "foldl attempt (False, None, ?c) (tap_strategies ex vx vy)") auto
  then obtain cs where cs: "issued s1 = issued ?c @ probe # cs"
    by (auto dest: tap_chain_probe_first)
  have "snd (tap ex vx vy ?c) = s1"
    using ec ch by (simp add: tap_def)
  then have first: "\<exists>cs. issued (wdaClient (snd (on_tap ex \<lparr>data_x = Some vx, data_y = Some vy\<rparr> srv)))
            = issued (wdaClient srv) @ probe # cs"
    using assms(1,2) cs by (auto simp: on_tap_def falsy_def split: prod.splits sum.splits)
  have second: "on_tap ex \<lparr>data_x = Some vx, data_y = Some vy\<rparr> srv
            = (InputResultOk ''tap'' (TapResult vx vy (Some d)),
               srv\<lparr>wdaClient := (wdaClient srv)\<lparr>host := w2,
                 issued := issued (wdaClient srv) @
                   [probe, DevicectlTouch d (Math_round vx) (Math_round vy)]\<rparr>\<rparr>)"
    if "ex (host (wdaClient srv)) probe = (Inr out, w1)" "js_includes out d"
       "ex w1 (DevicectlTouch d (Math_round vx) (Math_round vy)) = (Inr out', w2)"
  proof -
    have "tap_wda ex vx vy ?c = (Inr (), ?c\<lparr>host := w2,
                 issued := issued ?c @ [probe, DevicectlTouch d (Math_round vx) (Math_round vy)]\<rparr>)"
      using that assms(4) by (simp add: tap_wda_def run_def probe_def js_str_def exec_ok_def)
    then have "foldl attempt (False, None, ?c) (tap_strategies ex vx vy) = (True, None, ?c\<lparr>host := w2,
                 issued := issued ?c @ [probe, DevicectlTouch d (Math_round vx) (Math_round vy)]\<rparr>)"
      by (simp add: tap_strategies_def attempt_def chain_from_success)
    then show ?thesis
      using ec assms(1,2,4) by (simp add: on_tap_def falsy_def tap_def)
  qed
  from first second show ?thesis by blast
qed

theorem tap_dispatched_without_bounds_check_witness:
  "(- 5 :: real) \<noteq> 0 \<and> (10 :: real) \<noteq> 0 \<and> isConnected (connected_client True) \<and>
   currentDevice (connected_client True) = Some ''AAAA'' \<and> ''AAAA'' \<noteq> [] \<and>
   sim_host True probe = (Inr ''iPhone 15   AAAA   available'', True) \<and>
   js_includes ''iPhone 15   AAAA   available'' ''AAAA'' \<and>
   sim_host True (DevicectlTouch ''AAAA'' (Math_round (- 5)) (Math_round 10)) = (Inr [], True) \<and>
   on_tap sim_host \<lparr>data_x = Some (- 5), data_y = Some 10\<rparr>
      \<lparr>wdaClient = connected_client True, ffmpegStream = new_FFmpegStream\<rparr>
   = (InputResultOk ''tap'' (TapResult (- 5) 10 (Some ''AAAA'')),
      \<lparr>wdaClient = (connected_client True)\<lparr>host := True, issued := [] @
          [probe, DevicectlTouch ''AAAA'' (Math_round (- 5)) (Math_round 10)]\<rparr>,
       ffmpegStream = new_FFmpegStream\<rparr>)"
  using tap_dispatched_without_bounds_check [of "- 5" 10
      "\<lparr>wdaClient = connected_client True, ffmpegStream = new_FFmpegStream\<rparr>" "''AAAA''"
      sim_host "''iPhone 15   AAAA   available''" True "[]" True]
  by (simp add: connected_client_def sim_host_def probe_def)

subsection \<open>The error of a failed tap\<close>

text \<open>
  C3, as the claim states it, fails: on two machines where \<open>devicectl\<close> fails with different
  messages and the other three mechanisms fail alike, \<open>tap\<close> raises the same error, which
  carries the message of the last mechanism only.
\<close>

theorem tap_error_keeps_last_message_counterexample:
  "fst (tap (failing_host ''devicectl: no such device'') 10 20 (connected_client ()))
     = Inl (FailedToTap 10 20 (FailedToTap 10 20 (FailedToTap 10 20
         (Msg ''Command failed: osascript (test clicks)'')))) \<and>
   fst (tap (failing_host ''devicectl: timed out'') 10 20 (connected_client ()))
     = Inl (FailedToTap 10 20 (FailedToTap 10 20 (FailedToTap 10 20
         (Msg ''Command failed: osascript (test clicks)''))))"
  by (simp add: tap_def ensure_connected_def connected_client_def truthy_def
      tap_strategies_def attempt_def tap_wda_def tap_simctl_ui_def tap_applescript_scaled_def
      tap_applescript_debug_def run_def failing_host_def js_str_def exec_ok_def message_or_def)

text \<open>
  C3, amended. On a connected client \<open>tap\<close> raises its error exactly when each of the four
  strategies, tried in order, each from the state the one before left, has failed. The error
  then carries the message of the fourth strategy alone (\<open>All methods failed\<close> when that
  message is empty), wrapped three times in \<open>Failed to tap at (x, y)\<close>.
\<close>

theorem tap_fails_iff_all_strategies_fail:
  assumes "isConnected s" and "truthy (currentDevice s)"
    and "tap_wda ex x y s = (r1, s1)" and "tap_simctl_ui ex x y s1 = (r2, s2)"
    and "tap_applescript_scaled ex x y s2 = (r3, s3)" and "tap_applescript_debug ex x y s3 = (r4, s4)"
  shows "(isl (fst (tap ex x y s)) \<longleftrightarrow> isl r1 \<and> isl r2 \<and> isl r3 \<and> isl r4) \<and>
         (r1 = Inl m1 \<and> r2 = Inl m2 \<and> r3 = Inl m3 \<and> r4 = Inl m4 \<longrightarrow>
            tap ex x y s
              = (Inl (FailedToTap x y (FailedToTap x y (FailedToTap x y
                   (Msg (if m4 = [] then ''All methods failed'' else m4))))), s4))"
proof -
  have ec: "ensure_connected ex s = (Inr (), s)"
    using assms(1,2) by (rule connected_ensure)
  show ?thesis
    using assms(3-6)
    by (cases r1; cases r2; cases r3; cases r4)
      (simp_all add: tap_def ec tap_strategies_def attempt_def message_or_def chain_from_success)
qed

theorem tap_fails_iff_all_strategies_fail_witness:
  "isConnected (connected_client ()) \<and> truthy (currentDevice (connected_client ())) \<and>
   tap (failing_host ''devicectl: no such device'') 10 20 (connected_client ())
     = (Inl (FailedToTap 10 20 (FailedToTap 10 20 (FailedToTap 10 20
          (Msg ''Command failed: osascript (test clicks)'')))),
        (connected_client ())\<lparr>issued := [probe, SimctlUiTap ''AAAA'' 10 20, OsascriptTapScaled 10 20,
           OsascriptTapDebug 10 20]\<rparr>)"
  using tap_fails_iff_all_strategies_fail [of "connected_client ()"
      "failing_host ''devicectl: no such device''" 10 20
      "Inl ''devicectl: no such device''" "(connected_client ())\<lparr>issued := [probe]\<rparr>"
      "Inl ''Command failed: xcrun simctl ui''"
      "(connected_client ())\<lparr>issued := [probe, SimctlUiTap ''AAAA'' 10 20]\<rparr>"
      "Inl ''Command failed: osascript (scaled click)''"
      "(connected_client ())\<lparr>issued := [probe, SimctlUiTap ''AAAA'' 10 20, OsascriptTapScaled 10 20]\<rparr>"
      "Inl ''Command failed: osascript (test clicks)''"
      "(connected_client ())\<lparr>issued := [probe, SimctlUiTap ''AAAA'' 10 20, OsascriptTapScaled 10 20,
           OsascriptTapDebug 10 20]\<rparr>"
      "''devicectl: no such device''" "''Command failed: xcrun simctl ui''"
      "''Command failed: osascript (scaled click)''" "''Command failed: osascript (test clicks)''"]
  by (simp add: connected_client_def truthy_def tap_wda_def tap_simctl_ui_def
      tap_applescript_scaled_def tap_applescript_debug_def run_def failing_host_def js_str_def
      exec_ok_def probe_def Math_round_def)

subsection \<open>Streams\<close>

lemma ffmpeg_wf_new: "ffmpeg_wf new_FFmpegStream"
  by (simp add: ffmpeg_wf_def new_FFmpegStream_def)

lemma stopStream_stops: "ffmpeg_wf s \<Longrightarrow> ffmpeg_wf (stopStream s) \<and> backends (stopStream s) = 0"
  by (auto simp: ffmpeg_wf_def stopStream_def backends_def Let_def split: option.splits)













lemma rtc_wf_new: "rtc_wf new_WebRTCStream"
  by (simp add: rtc_wf_def new_WebRTCStream_def)

lemma rtc_wf_modes: "rtc_wf s \<Longrightarrow> rtc_wf (enableWebRTCMode s) \<and> rtc_wf (enableScreenshotMode s)"
  by (simp add: rtc_wf_def enableWebRTCMode_def enableScreenshotMode_def)

lemma rtc_stopStream_stops: "rtc_wf s \<Longrightarrow> rtc_wf (rtc_stopStream s) \<and> rtc_backends (rtc_stopStream s) = 0"
  by (auto simp: rtc_wf_def rtc_stopStream_def rtc_backends_def Let_def split: option.splits)












subsection \<open>The command of sendKeys\<close>







subsection \<open>Commands on a session that is not connected\<close>

lemma test_connection_result:
  "test_connection ex d s = (r, s') \<Longrightarrow>
     (case r of Inl e \<Rightarrow> \<not> isConnected s' \<and> currentDevice s' = None
              | Inr v \<Rightarrow> v = d \<and> isConnected s' \<and> currentDevice s' = Some d)"
  by (auto simp: test_connection_def connect_failed_def
      split: prod.splits sum.splits option.splits if_splits)

lemma connectToDevice_result:
  "connectToDevice ex d s = (r, s') \<Longrightarrow>
     (case r of Inl e \<Rightarrow> \<not> isConnected s' \<and> currentDevice s' = None
              | Inr v \<Rightarrow> isConnected s' \<and> currentDevice s' = Some v)"
  by (auto simp: connectToDevice_def connect_failed_def
      split: prod.splits sum.splits option.splits if_splits dest!: test_connection_result)

lemma ensure_connected_result:
  "ensure_connected ex s = (r, s') \<Longrightarrow>
     (case r of Inl e \<Rightarrow> \<not> isConnected s' \<and> currentDevice s' = None
              | Inr v \<Rightarrow> isConnected s' \<and> currentDevice s' \<noteq> None)"
  by (auto simp: ensure_connected_def truthy_def
      split: prod.splits sum.splits option.splits if_splits dest!: connectToDevice_result)

lemma swipe_wda_probe_first:
  "swipe_wda ex x0 y0 x1 y1 s = (r, s') \<Longrightarrow> \<exists>cs. issued s' = issued s @ probe # cs"
  by (auto simp: swipe_wda_def probe_def split: prod.splits sum.splits if_splits
      dest!: run_issued exec_ok_issued)

lemma swipe_chain_probe_first:
  assumes "foldl attempt (False, None, s) (swipe_strategies ex x0 y0 x1 y1) = (b, e, s')"
  shows "\<exists>cs. issued s' = issued s @ probe # cs"
proof -
  obtain r1 s1 where w: "swipe_wda ex x0 y0 x1 y1 s = (r1, s1)"
    by (cases "swipe_wda ex x0 y0 x1 y1 s") auto
  then obtain cs1 where c1: "issued s1 = issued s @ probe # cs1"
    by (auto dest: swipe_wda_probe_first)
  obtain b1 e1 where a: "attempt (False, None, s) (swipe_wda ex x0 y0 x1 y1) = (b1, e1, s1)"
    using w by (cases r1) (auto simp: attempt_def)
  have "foldl attempt (b1, e1, s1) [swipe_applescript ex x0 y0 x1 y1] = (b, e, s')"
    using assms a by (simp add: swipe_strategies_def)
  then have "adds (\<lambda>c. True) s1 s'"
    by (rule chain_adds [rotated]) (auto simp: swipe_applescript_def intro: exec_ok_adds)
  then obtain cs2 where "issued s' = issued s1 @ cs2"
    by (auto simp: adds_def)
  with c1 show ?thesis by simp
qed

lemma tap_after_connect:
  assumes "ensure_connected ex s = (Inr (), s0)"
  shows "\<exists>cs. issued (snd (tap ex x y s)) = issued s0 @ probe # cs"
proof -
  obtain b e s1 where ch: "foldl attempt (False, None, s0) (tap_strategies ex x y) = (b, e, s1)"
    by (cases "foldl attempt (False, None, s0) (tap_strategies ex x y)") auto
  then have "\<exists>cs. issued s1 = issued s0 @ probe # cs"
    by (rule tap_chain_probe_first)
  moreover have "snd (tap ex x y s) = s1"
    using assms ch by (simp add: tap_def)
  ultimately show ?thesis by simp
qed

lemma swipe_after_connect:
  assumes "ensure_connected ex s = (Inr (), s0)"
  shows "\<exists>cs. issued (snd (swipe ex x0 y0 x1 y1 t s)) = issued s0 @ probe # cs"
proof -
  obtain b e s1 where ch: "foldl attempt (False, None, s0) (swipe_strategies ex x0 y0 x1 y1) = (b, e, s1)"
    by (cases "foldl attempt (False, None, s0) (swipe_strategies ex x0 y0 x1 y1)") auto
  then obtain cs where cs: "issued s1 = issued s0 @ probe # cs"
    by (auto dest: swipe_chain_probe_first)
  show ?thesis
  proof (cases b)
    case True
    then have "snd (swipe ex x0 y0 x1 y1 t s) = s1"
      using assms ch by (simp add: swipe_def)
    with cs show ?thesis by simp
  next
    case False
    obtain r2 s2 where d: "exec_ok ex (OsascriptSwipeDrag (Math_round x0) (Math_round y0)
                         (Math_round x1) (Math_round y1)) s1 = (r2, s2)"
      by (cases "exec_ok ex (OsascriptSwipeDrag (Math_round x0) (Math_round y0)
                         (Math_round x1) (Math_round y1)) s1") auto
    then have "issued s2 = issued s1 @ [OsascriptSwipeDrag (Math_round x0) (Math_round y0)
                         (Math_round x1) (Math_round y1)]"
      by (rule exec_ok_issued)
    moreover have "snd (swipe ex x0 y0 x1 y1 t s) = s2"
      using assms ch False d by (cases r2) (simp_all add: swipe_def)
    ultimately show ?thesis using cs by simp
  qed
qed

text \<open>
  C2, as the claim states it, fails: a tap on a client that is not connected, on a machine
  with a booted simulator, is not refused. The client connects by itself (two listings),
  then the probe and the touch are issued and the tap succeeds.
\<close>

theorem tap_when_not_connected_counterexample:
  "\<not> isConnected (new_WDAClient True) \<and>
   tap sim_host 100 200 (new_WDAClient True)
     = (Inr (TapResult 100 200 (Some ''AAAA'')),
        \<lparr>isConnected = True, currentDevice = Some ''AAAA'', devices = [iphone15 ''Booted''],
         host = True,
         issued = [list_targets, list_targets, probe, DevicectlTouch ''AAAA'' 100 200]\<rparr>)"
  by (simp add: new_WDAClient_def tap_def ensure_connected_def truthy_def
      connectToDevice_def listDevices_def runCommand_def command_for_def arg_def run_def
      sim_host_def test_connection_def sim_listing_def parse_devices_def parse_line_def trim_def
      js_ws_def device_match_def match_tail_def paren_group_def line_terminator_def endsWith_def
      Let_def iphone15_def list_targets_def probe_def tap_strategies_def attempt_def tap_wda_def
      js_str_def exec_ok_def Math_round_def)

lemma connect_lists_first:
  "\<exists>cs. issued (snd (connectToDevice ex None s)) = issued s @ list_targets # cs"
proof -
  obtain r1 s1 where rc: "runCommand ex [''list-targets''] s = (r1, s1)"
    by (cases "runCommand ex [''list-targets''] s") auto
  then have i1: "issued s1 = issued s @ [list_targets]"
    by (auto simp: runCommand_def command_for_def arg_def list_targets_def
        split: prod.splits sum.splits dest!: run_issued)
  obtain ds s2 where ld: "listDevices ex s = (ds, s2)"
    by (cases "listDevices ex s") auto
  then have i2: "issued s2 = issued s @ [list_targets]"
    using rc i1 by (auto simp: listDevices_def split: sum.splits)
  obtain r3 s3 where c: "connectToDevice ex None s = (r3, s3)"
    by (cases "connectToDevice ex None s") auto
  have "adds (\<lambda>c. True) s2 s3"
    using c ld
    by (auto simp: connectToDevice_def truthy_def connect_failed_def adds_refl
        split: option.splits prod.splits sum.splits
        dest!: test_connection_adds runCommand_adds
        intro: adds_weaken adds_trans adds_fields)
  then obtain cs where "issued s3 = issued s2 @ cs"
    by (auto simp: adds_def)
  with i2 c show ?thesis by simp
qed

lemma not_connected_ensure:
  "\<not> isConnected s \<or> \<not> truthy (currentDevice s) \<Longrightarrow>
   ensure_connected ex s
     = (case connectToDevice ex None s of (Inl e, s') \<Rightarrow> (Inl e, s') | (Inr d, s') \<Rightarrow> (Inr (), s'))"
  by (auto simp: ensure_connected_def)

lemma tap_issued_after_connect:
  "\<exists>cs. issued (snd (tap ex x y s)) = issued (snd (ensure_connected ex s)) @ cs"
proof (cases "ensure_connected ex s")
  case (Pair r s0)
  show ?thesis
  proof (cases r)
    case (Inl e)
    with Pair show ?thesis by (simp add: tap_def)
  next
    case (Inr u)
    with Pair have "ensure_connected ex s = (Inr (), s0)" by simp
    then obtain cs where "issued (snd (tap ex x y s)) = issued s0 @ probe # cs"
      by (auto dest: tap_after_connect)
    with Pair show ?thesis by simp
  qed
qed

lemma swipe_issued_after_connect:
  "\<exists>cs. issued (snd (swipe ex x0 y0 x1 y1 t s)) = issued (snd (ensure_connected ex s)) @ cs"
proof (cases "ensure_connected ex s")
  case (Pair r s0)
  show ?thesis
  proof (cases r)
    case (Inl e)
    with Pair show ?thesis by (simp add: swipe_def)
  next
    case (Inr u)
    with Pair have "ensure_connected ex s = (Inr (), s0)" by simp
    then obtain cs where "issued (snd (swipe ex x0 y0 x1 y1 t s)) = issued s0 @ probe # cs"
      by (auto dest: swipe_after_connect)
    with Pair show ?thesis by simp
  qed
qed

lemma not_connected_lists_first:
  assumes "\<not> isConnected s \<or> \<not> truthy (currentDevice s)"
  shows "\<exists>cs. issued (snd (ensure_connected ex s)) = issued s @ list_targets # cs"
proof -
  have "snd (ensure_connected ex s) = snd (connectToDevice ex None s)"
    using assms by (auto simp: ensure_connected_def split: prod.splits sum.splits)
  then show ?thesis
    using connect_lists_first [of ex s] by simp
qed

text \<open>
  C2, amended. \<open>tap\<close> and \<open>swipe\<close> never refuse a command for want of a connection. On a
  client that is not connected (the flag is off or there is no current device) they run
  \<open>connectToDevice()\<close> first: the first command issued is the device listing. When that
  attempt fails, the command fails with its error, wrapped once, the client is left
  disconnected, and only listings and boots have been issued, no strategy. When it succeeds
  the client is connected to the device it returned and the strategy chain is started from
  there, the probe first. On a client that is connected the chain is started at once.
\<close>

theorem tap_swipe_connect_first:
  "(\<not> isConnected s \<or> \<not> truthy (currentDevice s) \<longrightarrow>
      (\<exists>cs. issued (snd (tap ex x y s)) = issued s @ list_targets # cs) \<and>
      (\<exists>cs. issued (snd (swipe ex x0 y0 x1 y1 t s)) = issued s @ list_targets # cs) \<and>
      (connectToDevice ex None s = (Inl e, s0) \<longrightarrow>
         tap ex x y s = (Inl (FailedToTap x y e), s0) \<and>
         swipe ex x0 y0 x1 y1 t s = (Inl (FailedToSwipe x0 y0 x1 y1 e), s0) \<and>
         \<not> isConnected s0 \<and> adds is_spawn s s0) \<and>
      (connectToDevice ex None s = (Inr d, s0) \<longrightarrow>
         isConnected s0 \<and> currentDevice s0 = Some d \<and>
         (\<exists>cs. issued (snd (tap ex x y s)) = issued s0 @ probe # cs) \<and>
         (\<exists>cs. issued (snd (swipe ex x0 y0 x1 y1 t s)) = issued s0 @ probe # cs))) \<and>
   (isConnected s \<and> truthy (currentDevice s) \<longrightarrow>
      (\<exists>cs. issued (snd (tap ex x y s)) = issued s @ probe # cs) \<and>
      (\<exists>cs. issued (snd (swipe ex x0 y0 x1 y1 t s)) = issued s @ probe # cs)) \<and>
   (ensure_connected ex s = (Inl e, s0) \<longrightarrow>
      tap ex x y s = (Inl (FailedToTap x y e), s0) \<and>
      swipe ex x0 y0 x1 y1 t s = (Inl (FailedToSwipe x0 y0 x1 y1 e), s0) \<and>
      \<not> isConnected s0 \<and> adds is_spawn s s0) \<and>
   (ensure_connected ex s = (Inr (), s0) \<longrightarrow>
      isConnected s0 \<and> currentDevice s0 \<noteq> None \<and>
      (\<exists>cs. issued (snd (tap ex x y s)) = issued s0 @ probe # cs) \<and>
      (\<exists>cs. issued (snd (swipe ex x0 y0 x1 y1 t s)) = issued s0 @ probe # cs))"
proof -
  have fail: "tap ex x y s = (Inl (FailedToTap x y e), s0) \<and>
      swipe ex x0 y0 x1 y1 t s = (Inl (FailedToSwipe x0 y0 x1 y1 e), s0) \<and>
      \<not> isConnected s0 \<and> adds is_spawn s s0"
    if f: "ensure_connected ex s = (Inl e, s0)"
    using f ensure_connected_result [OF f] ensure_connected_adds [OF f]
    by (simp add: tap_def swipe_def)
  have ok: "(\<exists>cs. issued (snd (tap ex x y s)) = issued s0 @ probe # cs) \<and>
      (\<exists>cs. issued (snd (swipe ex x0 y0 x1 y1 t s)) = issued s0 @ probe # cs)"
    if c: "ensure_connected ex s = (Inr (), s0)"
    using tap_after_connect [OF c] swipe_after_connect [OF c] by blast
  have first: "(\<exists>cs. issued (snd (tap ex x y s)) = issued s @ list_targets # cs) \<and>
      (\<exists>cs. issued (snd (swipe ex x0 y0 x1 y1 t s)) = issued s @ list_targets # cs)"
    if n: "\<not> isConnected s \<or> \<not> truthy (currentDevice s)"
  proof -
    obtain cs0 where c0: "issued (snd (ensure_connected ex s)) = issued s @ list_targets # cs0"
      using not_connected_lists_first [OF n] by blast
    obtain cs1 where "issued (snd (tap ex x y s)) = issued (snd (ensure_connected ex s)) @ cs1"
      using tap_issued_after_connect by blast
    moreover obtain cs2 where
      "issued (snd (swipe ex x0 y0 x1 y1 t s)) = issued (snd (ensure_connected ex s)) @ cs2"
      using swipe_issued_after_connect by blast
    ultimately show ?thesis using c0 by simp
  qed
  have nfail: "tap ex x y s = (Inl (FailedToTap x y e), s0) \<and>
         swipe ex x0 y0 x1 y1 t s = (Inl (FailedToSwipe x0 y0 x1 y1 e), s0) \<and>
         \<not> isConnected s0 \<and> adds is_spawn s s0"
    if n: "\<not> isConnected s \<or> \<not> truthy (currentDevice s)"
      and c: "connectToDevice ex None s = (Inl e, s0)"
    using not_connected_ensure [OF n, of ex] c by (intro fail) simp
  have nok: "isConnected s0 \<and> currentDevice s0 = Some d \<and>
         (\<exists>cs. issued (snd (tap ex x y s)) = issued s0 @ probe # cs) \<and>
         (\<exists>cs. issued (snd (swipe ex x0 y0 x1 y1 t s)) = issued s0 @ probe # cs)"
    if n: "\<not> isConnected s \<or> \<not> truthy (currentDevice s)"
      and c: "connectToDevice ex None s = (Inr d, s0)"
  proof -
    have "ensure_connected ex s = (Inr (), s0)"
      using not_connected_ensure [OF n, of ex] c by simp
    then show ?thesis
      using ok connectToDevice_result [OF c] by simp
  qed
  have conn: "(\<exists>cs. issued (snd (tap ex x y s)) = issued s @ probe # cs) \<and>
      (\<exists>cs. issued (snd (swipe ex x0 y0 x1 y1 t s)) = issued s @ probe # cs)"
    if "isConnected s \<and> truthy (currentDevice s)"
  proof -
    have c: "ensure_connected ex s = (Inr (), s)"
      using that by (intro connected_ensure) simp_all
    show ?thesis
      using tap_after_connect [OF c] swipe_after_connect [OF c] by blast
  qed
  have res: "isConnected s0 \<and> currentDevice s0 \<noteq> None"
    if c: "ensure_connected ex s = (Inr (), s0)"
    using ensure_connected_result [OF c] by simp
  show ?thesis
  proof (intro conjI impI)
    assume n: "\<not> isConnected s \<or> \<not> truthy (currentDevice s)"
    show "\<exists>cs. issued (snd (tap ex x y s)) = issued s @ list_targets # cs"
      "\<exists>cs. issued (snd (swipe ex x0 y0 x1 y1 t s)) = issued s @ list_targets # cs"
      using first [OF n] by blast+
    {
      assume c: "connectToDevice ex None s = (Inl e, s0)"
      show "tap ex x y s = (Inl (FailedToTap x y e), s0)"
        "swipe ex x0 y0 x1 y1 t s = (Inl (FailedToSwipe x0 y0 x1 y1 e), s0)"
        "\<not> isConnected s0" "adds is_spawn s s0"
        using nfail [OF n c] by blast+
    }
    {
      assume c: "connectToDevice ex None s = (Inr d, s0)"
      show "isConnected s0" "currentDevice s0 = Some d"
        "\<exists>cs. issued (snd (tap ex x y s)) = issued s0 @ probe # cs"
        "\<exists>cs. issued (snd (swipe ex x0 y0 x1 y1 t s)) = issued s0 @ probe # cs"
        using nok [OF n c] by blast+
    }
  next
    assume c: "isConnected s \<and> truthy (currentDevice s)"
    show "\<exists>cs. issued (snd (tap ex x y s)) = issued s @ probe # cs"
      "\<exists>cs. issued (snd (swipe ex x0 y0 x1 y1 t s)) = issued s @ probe # cs"
      using conn [OF c] by blast+
  next
    assume f: "ensure_connected ex s = (Inl e, s0)"
    show "tap ex x y s = (Inl (FailedToTap x y e), s0)"
      "swipe ex x0 y0 x1 y1 t s = (Inl (FailedToSwipe x0 y0 x1 y1 e), s0)"
      "\<not> isConnected s0" "adds is_spawn s s0"
      using fail [OF f] by blast+
  next
    assume c: "ensure_connected ex s = (Inr (), s0)"
    show "isConnected s0" "currentDevice s0 \<noteq> None"
      "\<exists>cs. issued (snd (tap ex x y s)) = issued s0 @ probe # cs"
      "\<exists>cs. issued (snd (swipe ex x0 y0 x1 y1 t s)) = issued s0 @ probe # cs"
      using res [OF c] ok [OF c] by blast+
  qed
qed

theorem tap_swipe_connect_first_witness:
  "\<not> isConnected (new_WDAClient ()) \<and>
   connectToDevice (failing_host []) None (new_WDAClient ())
     = (Inl (Msg ''No iOS simulator found. Please start a simulator first.''),
        (new_WDAClient ())\<lparr>issued := [list_targets]\<rparr>) \<and>
   tap (failing_host []) 100 200 (new_WDAClient ())
     = (Inl (FailedToTap 100 200 (Msg ''No iOS simulator found. Please start a simulator first.'')),
        (new_WDAClient ())\<lparr>issued := [list_targets]\<rparr>) \<and>
   \<not> isConnected (new_WDAClient True) \<and>
   connectToDevice sim_host None (new_WDAClient True)
     = (Inr ''AAAA'', \<lparr>isConnected = True, currentDevice = Some ''AAAA'', devices = [iphone15 ''Booted''],
         host = True, issued = [list_targets, list_targets]\<rparr>) \<and>
   (\<exists>cs. issued (snd (tap sim_host 100 200 (new_WDAClient True))) = [] @ list_targets # cs) \<and>
   (\<exists>cs. issued (snd (swipe sim_host 100 200 100 300 1000 (new_WDAClient True)))
      = [list_targets, list_targets] @ probe # cs) \<and>
   isConnected (connected_client True) \<and> truthy (currentDevice (connected_client True)) \<and>
   (\<exists>cs. issued (snd (tap sim_host 100 200 (connected_client True))) = [] @ probe # cs)"
proof -
  let ?none = "Msg ''No iOS simulator found. Please start a simulator first.''"
  let ?s1 = "\<lparr>isConnected = True, currentDevice = Some ''AAAA'', devices = [iphone15 ''Booted''],
         host = True, issued = [list_targets, list_targets]\<rparr>"
  have n1: "\<not> isConnected (new_WDAClient ())" and i1: "issued (new_WDAClient True) = []"
    and n2: "\<not> isConnected (new_WDAClient True)"
    by (simp_all add: new_WDAClient_def)
  have c1: "connectToDevice (failing_host []) None (new_WDAClient ())
      = (Inl ?none, (new_WDAClient ())\<lparr>issued := [list_targets]\<rparr>)"
    by (simp add: new_WDAClient_def truthy_def connectToDevice_def listDevices_def runCommand_def
        command_for_def arg_def run_def failing_host_def connect_failed_def parse_devices_def
        parse_line_def trim_def list_targets_def)
  have c2: "connectToDevice sim_host None (new_WDAClient True) = (Inr ''AAAA'', ?s1)"
    by (simp add: new_WDAClient_def truthy_def connectToDevice_def listDevices_def runCommand_def
        command_for_def arg_def run_def sim_host_def test_connection_def sim_listing_def
        parse_devices_def parse_line_def trim_def js_ws_def device_match_def match_tail_def
        paren_group_def line_terminator_def endsWith_def Let_def iphone15_def list_targets_def)
  have k: "isConnected (connected_client True)" "truthy (currentDevice (connected_client True))"
    and i3: "issued (connected_client True) = []"
    by (simp_all add: connected_client_def truthy_def)
  have i2: "issued ?s1 = [list_targets, list_targets]"
    by simp
  have t1: "tap (failing_host []) 100 200 (new_WDAClient ())
      = (Inl (FailedToTap 100 200 ?none), (new_WDAClient ())\<lparr>issued := [list_targets]\<rparr>)"
    using tap_swipe_connect_first [where ex = "failing_host []" and s = "new_WDAClient ()"
        and e = ?none and ?s0.0 = "(new_WDAClient ())\<lparr>issued := [list_targets]\<rparr>"
        and x = 100 and y = 200] n1 c1
    by blast
  have t2: "\<exists>cs. issued (snd (tap sim_host 100 200 (new_WDAClient True)))
      = issued (new_WDAClient True) @ list_targets # cs"
    using tap_swipe_connect_first [where ex = sim_host and s = "new_WDAClient True"
        and x = 100 and y = 200] n2
    by blast
  have t3: "\<exists>cs. issued (snd (swipe sim_host 100 200 100 300 1000 (new_WDAClient True)))
      = issued ?s1 @ probe # cs"
    using tap_swipe_connect_first [where ex = sim_host and s = "new_WDAClient True"
        and d = "''AAAA''" and ?s0.0 = ?s1
        and ?x0.0 = 100 and ?y0.0 = 200 and ?x1.0 = 100 and ?y1.0 = 300 and t = 1000] n2 c2
    by blast
  have t4: "\<exists>cs. issued (snd (tap sim_host 100 200 (connected_client True)))
      = issued (connected_client True) @ probe # cs"
    using tap_swipe_connect_first [where ex = sim_host and s = "connected_client True"
        and x = 100 and y = 200] k
    by blast
  show ?thesis
    using n1 c1 t1 n2 c2 t2 t3 k t4 unfolding i1 i2 i3 by (intro conjI)
qed

subsection \<open>Connecting again\<close>

lemma run_ignores_state:
  "run ex c (s\<lparr>isConnected := b, currentDevice := cur\<rparr>)
     = (case run ex c s of (r, s') \<Rightarrow> (r, s'\<lparr>isConnected := b, currentDevice := cur\<rparr>))"
  by (simp add: run_def split: prod.splits)

lemma runCommand_ignores_state:
  "runCommand ex args (s\<lparr>isConnected := b, currentDevice := cur\<rparr>)
     = (case runCommand ex args s of (r, s') \<Rightarrow> (r, s'\<lparr>isConnected := b, currentDevice := cur\<rparr>))"
  by (simp add: runCommand_def run_ignores_state split: prod.splits sum.splits)

lemma listDevices_ignores_state:
  "listDevices ex (s\<lparr>isConnected := b, currentDevice := cur\<rparr>)
     = (case listDevices ex s of (ds, s') \<Rightarrow> (ds, s'\<lparr>isConnected := b, currentDevice := cur\<rparr>))"
  by (simp add: listDevices_def runCommand_ignores_state split: prod.splits sum.splits)

lemma test_connection_ignores_state:
  "test_connection ex d (s\<lparr>isConnected := b, currentDevice := cur\<rparr>) = test_connection ex d s"
  by (simp add: test_connection_def runCommand_ignores_state connect_failed_def
      split: prod.splits sum.splits option.splits)

lemma connectToDevice_ignores_state:
  "connectToDevice ex dev (s\<lparr>isConnected := b, currentDevice := cur\<rparr>) = connectToDevice ex dev s"
  by (simp add: connectToDevice_def listDevices_ignores_state runCommand_ignores_state
      test_connection_ignores_state connect_failed_def
      split: prod.splits sum.splits option.splits)

lemma test_connection_issued:
  "issued (snd (test_connection ex d s)) = issued s @ [list_targets]"
  by (simp add: test_connection_def runCommand_def run_def connect_failed_def command_for_def
      arg_def list_targets_def split: prod.splits sum.splits option.splits)

text \<open>
  C7, as the claim states it, fails: a client connected to \<open>AAAA\<close>, on a machine where
  that simulator has since been shut down, calls \<open>connectToDevice()\<close> again; the call lists
  the devices, finds none booted, and issues a boot.
\<close>

theorem second_connect_boots_counterexample:
  "isConnected (connected_client False) \<and>
   connectToDevice sim_host None (connected_client False)
     = (Inr ''AAAA'',
        \<lparr>isConnected = True, currentDevice = Some ''AAAA'', devices = [iphone15 ''Shutdown''],
         host = True,
         issued = [list_targets, Spawn ''xcrun'' [''simctl'', ''boot'', ''AAAA''], list_targets]\<rparr>)"
  by (simp add: connectToDevice_def listDevices_def runCommand_def command_for_def arg_def run_def
      connected_client_def sim_host_def truthy_def test_connection_def sim_listing_def
      parse_devices_def parse_line_def trim_def js_ws_def device_match_def match_tail_def
      paren_group_def line_terminator_def endsWith_def Let_def iphone15_def list_targets_def)

lemma find_none_weaker:
  "find is_simulator ds = None \<Longrightarrow> find booted_simulator ds = None"
  by (auto simp: find_None_iff is_simulator_def booted_simulator_def)

text \<open>
  C7, amended. \<open>connectToDevice\<close> does not look at the connection: called on a connected
  client it does what it does on a disconnected one. Called with no device id it lists the
  devices. When the listing holds a booted simulator it selects the first one and issues
  the two listings only, no boot; when it returns, it returns that simulator's id. When
  the listing holds simulators but none booted, it issues a boot of the first one listed
  right after the listing, and when it returns, it returns that simulator's id. When the
  listing holds no simulator, or cannot be had, it issues no boot and fails with
  \<open>No iOS simulator found\<close>, leaving the client disconnected, also one that was connected.
\<close>

theorem connect_reselects_booted_without_boot:
  "connectToDevice ex dev (s\<lparr>isConnected := b, currentDevice := cur\<rparr>) = connectToDevice ex dev s \<and>
   (ex (host s) list_targets = (Inr out, w) \<and>
    find booted_simulator (parse_devices (trim out)) = Some sim \<longrightarrow>
      issued (snd (connectToDevice ex None s)) = issued s @ [list_targets, list_targets] \<and>
      (\<forall>r. fst (connectToDevice ex None s) = Inr r \<longrightarrow> r = dev_id sim)) \<and>
   (ex (host s) list_targets = (Inr out, w) \<and>
    find booted_simulator (parse_devices (trim out)) = None \<and>
    find is_simulator (parse_devices (trim out)) = Some firstSim \<longrightarrow>
      (\<exists>cs. issued (snd (connectToDevice ex None s))
         = issued s @ list_targets # boot_command (dev_id firstSim) # cs) \<and>
      (\<forall>r. fst (connectToDevice ex None s) = Inr r \<longrightarrow> r = dev_id firstSim)) \<and>
   (ex (host s) list_targets = (Inr out, w) \<and>
    find is_simulator (parse_devices (trim out)) = None \<longrightarrow>
      connectToDevice ex None s
        = (Inl (Msg ''No iOS simulator found. Please start a simulator first.''),
           s\<lparr>isConnected := False, currentDevice := None, devices := parse_devices (trim out),
             host := w, issued := issued s @ [list_targets]\<rparr>)) \<and>
   (ex (host s) list_targets = (Inl m, w) \<longrightarrow>
      connectToDevice ex None s
        = (Inl (Msg ''No iOS simulator found. Please start a simulator first.''),
           s\<lparr>isConnected := False, currentDevice := None,
             host := w, issued := issued s @ [list_targets]\<rparr>))"
proof (intro conjI impI)
  show "connectToDevice ex dev (s\<lparr>isConnected := b, currentDevice := cur\<rparr>) = connectToDevice ex dev s"
    by (rule connectToDevice_ignores_state)
next
  assume h: "ex (host s) list_targets = (Inr out, w) \<and>
    find booted_simulator (parse_devices (trim out)) = Some sim"
  let ?s1 = "s\<lparr>host := w, issued := issued s @ [list_targets], devices := parse_devices (trim out)\<rparr>"
  have ld: "listDevices ex s = (parse_devices (trim out), ?s1)"
    using h by (simp add: listDevices_def runCommand_def run_def command_for_def arg_def
        list_targets_def)
  have f: "find (\<lambda>d. dev_type d = ''Simulator'' \<and> dev_status d = ''Booted'') (parse_devices (trim out)) = Some sim"
    using h by (simp add: booted_simulator_def [abs_def])
  have c: "connectToDevice ex None s = test_connection ex (dev_id sim) ?s1"
    using ld f by (simp add: connectToDevice_def truthy_def)
  show "issued (snd (connectToDevice ex None s)) = issued s @ [list_targets, list_targets]"
    by (simp add: c test_connection_issued)
  show "\<forall>r. fst (connectToDevice ex None s) = Inr r \<longrightarrow> r = dev_id sim"
    using test_connection_result [of ex "dev_id sim" ?s1]
    by (cases "test_connection ex (dev_id sim) ?s1") (auto simp: c)
next
  assume h: "ex (host s) list_targets = (Inr out, w) \<and>
    find booted_simulator (parse_devices (trim out)) = None \<and>
    find is_simulator (parse_devices (trim out)) = Some firstSim"
  let ?s1 = "s\<lparr>host := w, issued := issued s @ [list_targets], devices := parse_devices (trim out)\<rparr>"
  have ld: "listDevices ex s = (parse_devices (trim out), ?s1)"
    using h by (simp add: listDevices_def runCommand_def run_def command_for_def arg_def
        list_targets_def)
  have f1: "find (\<lambda>d. dev_type d = ''Simulator'' \<and> dev_status d = ''Booted'') (parse_devices (trim out)) = None"
    using h by (simp add: booted_simulator_def [abs_def])
  have f2: "find (\<lambda>d. dev_type d = ''Simulator'') (parse_devices (trim out)) = Some firstSim"
    using h by (simp add: is_simulator_def [abs_def])
  obtain r2 s2 where rb: "runCommand ex [''boot'', dev_id firstSim] ?s1 = (r2, s2)"
    by (cases "runCommand ex [''boot'', dev_id firstSim] ?s1") auto
  then have i2: "issued s2 = issued s @ [list_targets, boot_command (dev_id firstSim)]"
    by (auto simp: runCommand_def command_for_def arg_def boot_command_def
        split: prod.splits sum.splits dest!: run_issued)
  show "\<exists>cs. issued (snd (connectToDevice ex None s))
         = issued s @ list_targets # boot_command (dev_id firstSim) # cs"
  proof (cases r2)
    case (Inl m2)
    then have "connectToDevice ex None s = (Inl (Msg m2), connect_failed s2)"
      using ld f1 f2 rb by (simp add: connectToDevice_def truthy_def)
    then show ?thesis using i2 by (simp add: connect_failed_def)
  next
    case (Inr o2)
    then have "connectToDevice ex None s = test_connection ex (dev_id firstSim) s2"
      using ld f1 f2 rb by (simp add: connectToDevice_def truthy_def)
    then show ?thesis using i2 by (simp add: test_connection_issued)
  qed
  show "\<forall>r. fst (connectToDevice ex None s) = Inr r \<longrightarrow> r = dev_id firstSim"
  proof (cases r2)
    case (Inl m2)
    then have "connectToDevice ex None s = (Inl (Msg m2), connect_failed s2)"
      using ld f1 f2 rb by (simp add: connectToDevice_def truthy_def)
    then show ?thesis by simp
  next
    case (Inr o2)
    then have c: "connectToDevice ex None s = test_connection ex (dev_id firstSim) s2"
      using ld f1 f2 rb by (simp add: connectToDevice_def truthy_def)
    show ?thesis
      using test_connection_result [of ex "dev_id firstSim" s2]
      by (cases "test_connection ex (dev_id firstSim) s2") (auto simp: c)
  qed
next
  assume h: "ex (host s) list_targets = (Inr out, w) \<and>
    find is_simulator (parse_devices (trim out)) = None"
  let ?s1 = "s\<lparr>host := w, issued := issued s @ [list_targets], devices := parse_devices (trim out)\<rparr>"
  have ld: "listDevices ex s = (parse_devices (trim out), ?s1)"
    using h by (simp add: listDevices_def runCommand_def run_def command_for_def arg_def
        list_targets_def)
  have f2: "find (\<lambda>d. dev_type d = ''Simulator'') (parse_devices (trim out)) = None"
    using h by (simp add: is_simulator_def [abs_def])
  have "find booted_simulator (parse_devices (trim out)) = None"
    using h by (intro find_none_weaker) simp
  then have f1: "find (\<lambda>d. dev_type d = ''Simulator'' \<and> dev_status d = ''Booted'') (parse_devices (trim out)) = None"
    by (simp add: booted_simulator_def [abs_def])
  show "connectToDevice ex None s
        = (Inl (Msg ''No iOS simulator found. Please start a simulator first.''),
           s\<lparr>isConnected := False, currentDevice := None, devices := parse_devices (trim out),
             host := w, issued := issued s @ [list_targets]\<rparr>)"
    using ld f1 f2 by (simp add: connectToDevice_def truthy_def connect_failed_def)
next
  assume h: "ex (host s) list_targets = (Inl m, w)"
  let ?s1 = "s\<lparr>host := w, issued := issued s @ [list_targets]\<rparr>"
  have ld: "listDevices ex s = ([], ?s1)"
    using h by (simp add: listDevices_def runCommand_def run_def command_for_def arg_def
        list_targets_def)
  show "connectToDevice ex None s
        = (Inl (Msg ''No iOS simulator found. Please start a simulator first.''),
           s\<lparr>isConnected := False, currentDevice := None,
             host := w, issued := issued s @ [list_targets]\<rparr>)"
    using ld by (simp add: connectToDevice_def truthy_def connect_failed_def)
qed

theorem connect_reselects_booted_without_boot_witness:
  "sim_host True list_targets = (Inr (sim_listing True), True) \<and>
   find booted_simulator (parse_devices (trim (sim_listing True))) = Some (iphone15 ''Booted'') \<and>
   issued (snd (connectToDevice sim_host None (connected_client True))) = [] @ [list_targets, list_targets] \<and>
   sim_host False list_targets = (Inr (sim_listing False), False) \<and>
   find booted_simulator (parse_devices (trim (sim_listing False))) = None \<and>
   find is_simulator (parse_devices (trim (sim_listing False))) = Some (iphone15 ''Shutdown'') \<and>
   (\<exists>cs. issued (snd (connectToDevice sim_host None (connected_client False)))
      = [] @ list_targets # boot_command ''AAAA'' # cs) \<and>
   failing_host [] () list_targets = (Inr [], ()) \<and>
   find is_simulator (parse_devices (trim [])) = None \<and>
   connectToDevice (failing_host []) None (connected_client ())
     = (Inl (Msg ''No iOS simulator found. Please start a simulator first.''),
        (connected_client ())\<lparr>isConnected := False, currentDevice := None, devices := [],
          host := (), issued := [] @ [list_targets]\<rparr>) \<and>
   offline_host () list_targets = (Inl ''spawn xcrun ENOENT'', ()) \<and>
   connectToDevice offline_host None (connected_client ())
     = (Inl (Msg ''No iOS simulator found. Please start a simulator first.''),
        (connected_client ())\<lparr>isConnected := False, currentDevice := None,
          host := (), issued := [] @ [list_targets]\<rparr>)"
proof -
  have p1: "parse_devices (trim (sim_listing True)) = [iphone15 ''Booted'']"
    and p2: "parse_devices (trim (sim_listing False)) = [iphone15 ''Shutdown'']"
    and p3: "parse_devices (trim []) = []"
    by (simp_all add: sim_listing_def parse_devices_def parse_line_def trim_def js_ws_def
        device_match_def match_tail_def paren_group_def line_terminator_def endsWith_def Let_def
        iphone15_def)
  have h1: "sim_host True list_targets = (Inr (sim_listing True), True)"
    and h2: "sim_host False list_targets = (Inr (sim_listing False), False)"
    and h3: "failing_host [] () list_targets = (Inr [], ())"
    and h4: "offline_host () list_targets = (Inl ''spawn xcrun ENOENT'', ())"
    by (simp_all add: sim_host_def failing_host_def offline_host_def list_targets_def)
  have f1: "find booted_simulator (parse_devices (trim (sim_listing True))) = Some (iphone15 ''Booted'')"
    and f2: "find booted_simulator (parse_devices (trim (sim_listing False))) = None"
    and f3: "find is_simulator (parse_devices (trim (sim_listing False))) = Some (iphone15 ''Shutdown'')"
    and f4: "find is_simulator (parse_devices (trim [])) = None"
    by (simp_all add: p1 p2 p3 booted_simulator_def is_simulator_def iphone15_def)
  have i: "issued (connected_client b) = []" "host (connected_client b) = b" for b :: "'a"
    by (simp_all add: connected_client_def)
  have d: "dev_id (iphone15 st) = ''AAAA''" for st
    by (simp add: iphone15_def)
  have a: "issued (snd (connectToDevice sim_host None (connected_client True)))
      = issued (connected_client True) @ [list_targets, list_targets]"
    using connect_reselects_booted_without_boot [where ex = sim_host and s = "connected_client True"
        and out = "sim_listing True" and w = True and sim = "iphone15 ''Booted''"] h1 f1
    unfolding i by blast
  have b: "\<exists>cs. issued (snd (connectToDevice sim_host None (connected_client False)))
      = issued (connected_client False) @ list_targets # boot_command (dev_id (iphone15 ''Shutdown'')) # cs"
    using connect_reselects_booted_without_boot [where ex = sim_host and s = "connected_client False"
        and out = "sim_listing False" and w = False and firstSim = "iphone15 ''Shutdown''"] h2 f2 f3
    unfolding i by blast
  have c: "connectToDevice (failing_host []) None (connected_client ())
     = (Inl (Msg ''No iOS simulator found. Please start a simulator first.''),
        (connected_client ())\<lparr>isConnected := False, currentDevice := None,
          devices := parse_devices (trim []),
          host := (), issued := issued (connected_client ()) @ [list_targets]\<rparr>)"
    using connect_reselects_booted_without_boot [where ex = "failing_host []"
        and s = "connected_client ()" and out = "[]" and w = "()"] h3 f4
    unfolding i by blast
  have e: "connectToDevice offline_host None (connected_client ())
     = (Inl (Msg ''No iOS simulator found. Please start a simulator first.''),
        (connected_client ())\<lparr>isConnected := False, currentDevice := None,
          host := (), issued := issued (connected_client ()) @ [list_targets]\<rparr>)"
    using connect_reselects_booted_without_boot [where ex = offline_host
        and s = "connected_client ()" and m = "''spawn xcrun ENOENT''" and w = "()"] h4
    unfolding i by blast
  show ?thesis
    using h1 f1 a h2 f2 f3 b h3 f4 c h4 e unfolding i d p3 by (intro conjI)
qed

subsection \<open>The point a tap carries\<close>

text \<open>
  C6. The code does not do what the claim says. A client surface of 315 x 560, the size
  the backend's own comments give for the web canvas, and a device surface of 393 x 852:
  the linear map sends the tap (100, 200) to (2620 / 21, 2130 / 7), about (124.8, 304.3).
  On a connected client whose device \<open>devicectl\<close> knows, \<open>tap\<close> sends the touch at
  (100, 200), the client coordinates as they came.
\<close>

theorem tap_sent_unscaled:
  "tap sim_host 100 200 (connected_client True)
     = (Inr (TapResult 100 200 (Some ''AAAA'')),
        (connected_client True)\<lparr>issued := [probe, DevicectlTouch ''AAAA'' 100 200]\<rparr>) \<and>
   spec_map 100 315 393 = 2620 / 21 \<and> spec_map 200 560 852 = 2130 / 7 \<and>
   spec_map 100 315 393 \<noteq> 100 \<and> spec_map 200 560 852 \<noteq> 200"
  by (simp add: tap_def ensure_connected_def connected_client_def truthy_def
      tap_strategies_def attempt_def tap_wda_def run_def sim_host_def js_str_def exec_ok_def
      Math_round_def spec_map_def probe_def)

end
